theory Spec2Isabelle
  imports Complex_Main "HOL-Library.Multiset" "HOL-Library.Log_Nat"
begin

section \<open>Numbers of the query layer\<close>

text \<open>
  The parameters \<open>page\<close> and \<open>limit\<close> of the list operations are JavaScript numbers.
  The callers pass integers and, for the export of all feedback, \<open>Infinity\<close>
  (\<open>api.getAllFeedback(1, Infinity, ...)\<close>). The type below holds exactly these values,
  together with the values that the arithmetic of \<open>paginate\<close> produces from them
  (\<open>0 * Infinity\<close> is \<open>NaN\<close>, \<open>n / 0\<close> is infinite). Fractions are outside the model;
  integers are unbounded (a double is exact up to \<open>2 ^ 53\<close>).
\<close>

datatype number = Finite int | Infinity | MinusInfinity | NaN

text \<open>\<open>a - b\<close> on numbers.\<close>

fun minus_number :: "number \<Rightarrow> number \<Rightarrow> number" where
  "minus_number NaN _ = NaN"
| "minus_number _ NaN = NaN"
| "minus_number (Finite a) (Finite b) = Finite (a - b)"
| "minus_number (Finite a) Infinity = MinusInfinity"
| "minus_number (Finite a) MinusInfinity = Infinity"
| "minus_number Infinity Infinity = NaN"
| "minus_number Infinity _ = Infinity"
| "minus_number MinusInfinity MinusInfinity = NaN"
| "minus_number MinusInfinity _ = MinusInfinity"

text \<open>\<open>a * b\<close> on numbers: zero times an infinity is \<open>NaN\<close>, otherwise the signs multiply.\<close>

fun sign_number :: "number \<Rightarrow> int" where
  "sign_number (Finite a) = sgn a"
| "sign_number Infinity = 1"
| "sign_number MinusInfinity = - 1"
| "sign_number NaN = 0"

fun times_number :: "number \<Rightarrow> number \<Rightarrow> number" where
  "times_number NaN _ = NaN"
| "times_number _ NaN = NaN"
| "times_number (Finite a) (Finite b) = Finite (a * b)"
| "times_number a b =
     (if sign_number a * sign_number b = 0 then NaN
      else if sign_number a * sign_number b > 0 then Infinity else MinusInfinity)"

text \<open>
  \<open>Math.ceil(total / limit)\<close> for the length \<open>total\<close> of an array (\<open>len\<close> below):
  the quotient is a fraction in general, so the division and the rounding are one
  function here.
  \<open>total / 0\<close> is \<open>Infinity\<close>, \<open>0 / 0\<close> is \<open>NaN\<close>, \<open>total / \<plusminus>Infinity\<close> is zero.
\<close>

definition ceil_quotient :: "nat \<Rightarrow> number \<Rightarrow> number" where
  "ceil_quotient len limit =
     (case limit of
        Finite n \<Rightarrow>
          (if n = 0 then (if len = 0 then NaN else Infinity)
           else Finite \<lceil>rat_of_nat len / rat_of_int n\<rceil>)
      | Infinity \<Rightarrow> Finite 0
      | MinusInfinity \<Rightarrow> Finite 0
      | NaN \<Rightarrow> NaN)"

text \<open>The comparison \<open>a > b\<close> of two numbers; every comparison with \<open>NaN\<close> is false.\<close>

fun greater_number :: "number \<Rightarrow> number \<Rightarrow> bool" where
  "greater_number NaN _ = False"
| "greater_number _ NaN = False"
| "greater_number (Finite a) (Finite b) = (a > b)"
| "greater_number Infinity b = (b \<noteq> Infinity)"
| "greater_number a MinusInfinity = (a \<noteq> MinusInfinity)"
| "greater_number _ _ = False"

section \<open>Array.prototype.slice\<close>

text \<open>
  \<open>items.slice(start, end)\<close>: each bound is converted by ToIntegerOrInfinity (\<open>NaN\<close>
  becomes 0), a negative bound counts from the end of the array, and both are clamped
  to \<open>0 .. length\<close>. An empty range gives the empty array; slice never throws.
\<close>

definition relative_index :: "nat \<Rightarrow> number \<Rightarrow> nat" where
  "relative_index len n =
     (case n of
        Finite i \<Rightarrow> (if i < 0 then nat (max (int len + i) 0) else min (nat i) len)
      | Infinity \<Rightarrow> len
      | MinusInfinity \<Rightarrow> 0
      | NaN \<Rightarrow> 0)"

definition slice :: "'a list \<Rightarrow> number \<Rightarrow> number \<Rightarrow> 'a list" where
  "slice items start finish =
     (let len = length items;
          k = relative_index len start;
          final = relative_index len finish
      in take (final - k) (drop k items))"

section \<open>The paginated response helper\<close>

record 'a page =
  data :: "'a list"
  total :: nat
  totalPages :: number

definition paginate :: "'a list \<Rightarrow> number \<Rightarrow> number \<Rightarrow> 'a page" where
  "paginate items page limit =
     (let total' = length items;
          totalPages' = ceil_quotient total' limit;
          data' = slice items (times_number (minus_number page (Finite 1)) limit)
                              (times_number page limit)
      in \<lparr>data = data', total = total', totalPages = totalPages'\<rparr>)"

section \<open>The records of the three collections\<close>

datatype Role = STUDENT | ADMIN

text \<open>A \<open>Date\<close> is its time value \<open>getTime()\<close>, in milliseconds.\<close>

record User =
  id :: string
  name :: string
  email :: string
  password :: "string option"
  role :: Role
  profilePicture :: "string option"
  phoneNumber :: "string option"
  dateOfBirth :: "string option"
  address :: "string option"
  isBlocked :: bool
  createdAt :: int

record Course =
  id :: string
  name :: string
  description :: string
  link :: "string option"
  thumbnail :: "string option"
  createdAt :: int

text \<open>The rating is a number holding an integer (\<open>// 1-5\<close>).\<close>

record Feedback =
  id :: string
  studentId :: string
  studentName :: string
  courseId :: string
  rating :: int
  message :: string
  createdAt :: int

text \<open>
  \<open>Partial<T>\<close>: every key may be absent (\<open>None\<close>). A key of an optional field can also
  be present with the value \<open>undefined\<close> (\<open>Some None\<close>), as the profile form passes its
  \<open>profilePicture\<close>.
\<close>

record PartialUser =
  id :: "string option"
  name :: "string option"
  email :: "string option"
  password :: "string option option"
  role :: "Role option"
  profilePicture :: "string option option"
  phoneNumber :: "string option option"
  dateOfBirth :: "string option option"
  address :: "string option option"
  isBlocked :: "bool option"
  createdAt :: "int option"

record PartialCourse =
  id :: "string option"
  name :: "string option"
  description :: "string option"
  link :: "string option option"
  thumbnail :: "string option option"
  createdAt :: "int option"

record PartialFeedback =
  id :: "string option"
  studentId :: "string option"
  studentName :: "string option"
  courseId :: "string option"
  rating :: "int option"
  message :: "string option"
  createdAt :: "int option"

text \<open>\<open>Omit<Course, 'id' | 'createdAt'>\<close> and \<open>Omit<Feedback, 'id' | 'createdAt'>\<close>.\<close>

record CourseData =
  name :: string
  description :: string
  link :: "string option"
  thumbnail :: "string option"

record FeedbackData =
  studentId :: string
  studentName :: string
  courseId :: string
  rating :: int
  message :: string

text \<open>The filters of \<open>getAllFeedback\<close>: \<open>{ courseId?: string; rating?: number }\<close>.\<close>

record Filters =
  courseId :: "string option"
  rating :: "int option"

text \<open>
  The object spread \<open>{ ...old, ...data }\<close>, field by field: a key present in \<open>data\<close>
  replaces the value of \<open>old\<close>, an absent key keeps it.
\<close>

definition spread :: "'a \<Rightarrow> 'a option \<Rightarrow> 'a" where
  "spread old new = (case new of None \<Rightarrow> old | Some v \<Rightarrow> v)"

definition spread_User :: "User \<Rightarrow> PartialUser \<Rightarrow> User" where
  "spread_User u d =
     \<lparr>User.id = spread (User.id u) (PartialUser.id d),
      name = spread (User.name u) (PartialUser.name d),
      email = spread (User.email u) (PartialUser.email d),
      password = spread (User.password u) (PartialUser.password d),
      role = spread (User.role u) (PartialUser.role d),
      profilePicture = spread (User.profilePicture u) (PartialUser.profilePicture d),
      phoneNumber = spread (User.phoneNumber u) (PartialUser.phoneNumber d),
      dateOfBirth = spread (User.dateOfBirth u) (PartialUser.dateOfBirth d),
      address = spread (User.address u) (PartialUser.address d),
      isBlocked = spread (User.isBlocked u) (PartialUser.isBlocked d),
      createdAt = spread (User.createdAt u) (PartialUser.createdAt d)\<rparr>"

definition spread_Course :: "Course \<Rightarrow> PartialCourse \<Rightarrow> Course" where
  "spread_Course c d =
     \<lparr>Course.id = spread (Course.id c) (PartialCourse.id d),
      name = spread (Course.name c) (PartialCourse.name d),
      description = spread (Course.description c) (PartialCourse.description d),
      link = spread (Course.link c) (PartialCourse.link d),
      thumbnail = spread (Course.thumbnail c) (PartialCourse.thumbnail d),
      createdAt = spread (Course.createdAt c) (PartialCourse.createdAt d)\<rparr>"

definition spread_Feedback :: "Feedback \<Rightarrow> PartialFeedback \<Rightarrow> Feedback" where
  "spread_Feedback f d =
     \<lparr>Feedback.id = spread (Feedback.id f) (PartialFeedback.id d),
      studentId = spread (Feedback.studentId f) (PartialFeedback.studentId d),
      studentName = spread (Feedback.studentName f) (PartialFeedback.studentName d),
      courseId = spread (Feedback.courseId f) (PartialFeedback.courseId d),
      rating = spread (Feedback.rating f) (PartialFeedback.rating d),
      message = spread (Feedback.message f) (PartialFeedback.message d),
      createdAt = spread (Feedback.createdAt f) (PartialFeedback.createdAt d)\<rparr>"

section \<open>The in-memory database\<close>

text \<open>
  \<open>users\<close>, \<open>courses\<close> and \<open>feedbacks\<close> are the three module-level arrays. User objects
  are mutated in place (\<open>user.password = newPass\<close>, \<open>user.isBlocked = isBlocked\<close>) and
  handed out by reference, so the array \<open>users\<close> holds references into a heap of User
  objects; \<open>next_ref\<close> is the address of the next object to be created. Course and
  Feedback objects are never mutated in place (an update builds a new object), so these
  arrays hold the values.
\<close>

type_synonym ref = nat

record store =
  heap :: "ref \<Rightarrow> User"
  next_ref :: ref
  users :: "ref list"
  courses :: "Course list"
  feedbacks :: "Feedback list"

datatype error = Error string

text \<open>The decimal digits of a number, as the template literal \<open>`user-${n}`\<close> prints them.\<close>

function string_of_nat :: "nat \<Rightarrow> string" where
  "string_of_nat n =
     (if n < 10 then [''0123456789'' ! n]
      else string_of_nat (n div 10) @ [''0123456789'' ! (n mod 10)])"
  by pat_completeness auto
termination
  by (relation "measure (\<lambda>n. n)") auto

declare string_of_nat.simps [simp del]

text \<open>A default parameter value applies when the argument is absent.\<close>

definition default_to :: "'a \<Rightarrow> 'a option \<Rightarrow> 'a" where
  "default_to d arg = (case arg of None \<Rightarrow> d | Some v \<Rightarrow> v)"

section \<open>The API functions\<close>

text \<open>
  Every function takes the database and returns its result, \<open>Inl\<close> for a rejected
  promise and \<open>Inr\<close> for a resolved one; a function that writes returns the new
  database as well. The simulated delay has no effect on either. \<open>now\<close> is the time
  value of \<open>new Date()\<close> at the call.
\<close>

definition login :: "string \<Rightarrow> string \<Rightarrow> store \<Rightarrow> error + ref" where
  "login email' password' s =
     (case find (\<lambda>r. User.email (heap s r) = email'
                      \<and> User.password (heap s r) = Some password') (users s) of
        None \<Rightarrow> Inl (Error ''Invalid credentials'')
      | Some user \<Rightarrow>
          if User.isBlocked (heap s user) then Inl (Error ''Your account is blocked.'')
          else Inr user)"

definition signup ::
  "int \<Rightarrow> string \<Rightarrow> string \<Rightarrow> string \<Rightarrow> store \<Rightarrow> (error + ref) \<times> store" where
  "signup now name' email' password' s =
     (if list_ex (\<lambda>r. User.email (heap s r) = email') (users s)
      then (Inl (Error ''Email already exists''), s)
      else
        let newUser =
              \<lparr>User.id = ''user-'' @ string_of_nat (length (users s) + 1),
               name = name',
               email = email',
               password = Some password',
               role = STUDENT,
               profilePicture = None,
               phoneNumber = None,
               dateOfBirth = None,
               address = None,
               isBlocked = False,
               createdAt = now\<rparr>;
            r = next_ref s
        in (Inr r, s\<lparr>heap := (heap s)(r := newUser), next_ref := Suc r,
                      users := users s @ [r]\<rparr>))"

definition updateProfile ::
  "string \<Rightarrow> PartialUser \<Rightarrow> store \<Rightarrow> (error + ref) \<times> store" where
  "updateProfile userId d s =
     (case find (\<lambda>r. User.id (heap s r) = userId) (users s) of
        None \<Rightarrow> (Inl (Error ''User not found''), s)
      | Some old \<Rightarrow>
          let user = spread_User (heap s old) d;
              r = next_ref s
          in (Inr r, s\<lparr>heap := (heap s)(r := user), next_ref := Suc r,
                        users := map (\<lambda>u. if User.id (heap s u) = userId then r else u)
                                   (users s)\<rparr>))"

definition changePassword ::
  "string \<Rightarrow> string \<Rightarrow> string \<Rightarrow> store \<Rightarrow> (error + bool) \<times> store" where
  "changePassword userId oldPass newPass s =
     (case find (\<lambda>r. User.id (heap s r) = userId) (users s) of
        None \<Rightarrow> (Inl (Error ''Invalid current password''), s)
      | Some user \<Rightarrow>
          if User.password (heap s user) \<noteq> Some oldPass
          then (Inl (Error ''Invalid current password''), s)
          else (Inr True,
                s\<lparr>heap := (heap s)(user := (heap s user)\<lparr>User.password := Some newPass\<rparr>)\<rparr>))"

definition getCourses :: "store \<Rightarrow> Course list" where
  "getCourses s = courses s"

definition addCourse :: "int \<Rightarrow> CourseData \<Rightarrow> store \<Rightarrow> (error + Course) \<times> store" where
  "addCourse now d s =
     (let newCourse =
            \<lparr>Course.id = ''course-'' @ string_of_nat (length (courses s) + 1),
             name = CourseData.name d,
             description = CourseData.description d,
             link = CourseData.link d,
             thumbnail = CourseData.thumbnail d,
             createdAt = now\<rparr>
      in (Inr newCourse, s\<lparr>courses := courses s @ [newCourse]\<rparr>))"

definition updateCourse ::
  "string \<Rightarrow> PartialCourse \<Rightarrow> store \<Rightarrow> (error + Course) \<times> store" where
  "updateCourse cid d s =
     (case find (\<lambda>c. Course.id c = cid) (courses s) of
        None \<Rightarrow> (Inl (Error ''Course not found''), s)
      | Some old \<Rightarrow>
          let course = spread_Course old d
          in (Inr course,
              s\<lparr>courses := map (\<lambda>c. if Course.id c = cid then course else c) (courses s)\<rparr>))"

definition deleteCourse :: "string \<Rightarrow> store \<Rightarrow> (error + bool) \<times> store" where
  "deleteCourse cid s =
     (Inr True, s\<lparr>courses := filter (\<lambda>c. Course.id c \<noteq> cid) (courses s)\<rparr>)"

text \<open>
  \<open>sort((a, b) => b.createdAt.getTime() - a.createdAt.getTime())\<close>: newest first; the
  sort of an array is stable, as the insertion sort \<^const>\<open>sort_key\<close> is.
\<close>

definition sort_newest_first :: "Feedback list \<Rightarrow> Feedback list" where
  "sort_newest_first fs = sort_key (\<lambda>f. - Feedback.createdAt f) fs"

definition getStudentFeedback ::
  "string \<Rightarrow> number option \<Rightarrow> number option \<Rightarrow> store \<Rightarrow> Feedback page" where
  "getStudentFeedback sid page limit s =
     (let studentFeedbacks =
            sort_newest_first (filter (\<lambda>f. Feedback.studentId f = sid) (feedbacks s))
      in paginate studentFeedbacks (default_to (Finite 1) page) (default_to (Finite 5) limit))"

text \<open>
  \<open>if (filters.courseId)\<close> and \<open>if (filters.rating)\<close> test the value for truthiness:
  \<open>undefined\<close>, the empty string and the number 0 are falsy.
\<close>

definition truthy_string :: "string option \<Rightarrow> bool" where
  "truthy_string v = (case v of None \<Rightarrow> False | Some t \<Rightarrow> t \<noteq> [])"

definition truthy_int :: "int option \<Rightarrow> bool" where
  "truthy_int v = (case v of None \<Rightarrow> False | Some n \<Rightarrow> n \<noteq> 0)"

definition getAllFeedback ::
  "number option \<Rightarrow> number option \<Rightarrow> Filters option \<Rightarrow> store \<Rightarrow> Feedback page" where
  "getAllFeedback page limit filters' s =
     (let filters = default_to \<lparr>courseId = None, rating = None\<rparr> filters';
          filtered = feedbacks s;
          filtered =
            (if truthy_string (Filters.courseId filters)
             then filter (\<lambda>f. Some (Feedback.courseId f) = Filters.courseId filters) filtered
             else filtered);
          filtered =
            (if truthy_int (Filters.rating filters)
             then filter (\<lambda>f. Some (Feedback.rating f) = Filters.rating filters) filtered
             else filtered);
          sorted' = sort_newest_first filtered
      in paginate sorted' (default_to (Finite 1) page) (default_to (Finite 10) limit))"

definition addFeedback ::
  "int \<Rightarrow> FeedbackData \<Rightarrow> store \<Rightarrow> (error + Feedback) \<times> store" where
  "addFeedback now d s =
     (let newFeedback =
            \<lparr>Feedback.id = ''feedback-'' @ string_of_nat (length (feedbacks s) + 1),
             studentId = FeedbackData.studentId d,
             studentName = FeedbackData.studentName d,
             courseId = FeedbackData.courseId d,
             rating = FeedbackData.rating d,
             message = FeedbackData.message d,
             createdAt = now\<rparr>
      in (Inr newFeedback, s\<lparr>feedbacks := newFeedback # feedbacks s\<rparr>))"

definition updateFeedback ::
  "string \<Rightarrow> PartialFeedback \<Rightarrow> store \<Rightarrow> (error + Feedback) \<times> store" where
  "updateFeedback fid d s =
     (case find (\<lambda>f. Feedback.id f = fid) (feedbacks s) of
        None \<Rightarrow> (Inl (Error ''Feedback not found''), s)
      | Some old \<Rightarrow>
          let feedback = spread_Feedback old d
          in (Inr feedback,
              s\<lparr>feedbacks :=
                  map (\<lambda>f. if Feedback.id f = fid then feedback else f) (feedbacks s)\<rparr>))"

definition deleteFeedback :: "string \<Rightarrow> store \<Rightarrow> (error + bool) \<times> store" where
  "deleteFeedback fid s =
     (Inr True, s\<lparr>feedbacks := filter (\<lambda>f. Feedback.id f \<noteq> fid) (feedbacks s)\<rparr>)"

text \<open>
  \<open>a.name.localeCompare(b.name)\<close> orders names by the collation of the host's locale,
  which is not part of the repository: \<open>collate\<close> maps a name to its collation key.
\<close>

definition getUsers ::
  "(string \<Rightarrow> 'k::linorder) \<Rightarrow> number option \<Rightarrow> number option \<Rightarrow> store \<Rightarrow> ref page" where
  "getUsers collate page limit s =
     (let allUsers = sort_key (\<lambda>r. collate (User.name (heap s r))) (users s)
      in paginate allUsers (default_to (Finite 1) page) (default_to (Finite 10) limit))"

definition updateUserStatus :: "string \<Rightarrow> bool \<Rightarrow> store \<Rightarrow> (error + ref) \<times> store" where
  "updateUserStatus userId blocked s =
     (case find (\<lambda>r. User.id (heap s r) = userId) (users s) of
        None \<Rightarrow> (Inl (Error ''User not found''), s)
      | Some user \<Rightarrow>
          (Inr user,
           s\<lparr>heap := (heap s)(user := (heap s user)\<lparr>User.isBlocked := blocked\<rparr>)\<rparr>))"

definition deleteUser :: "string \<Rightarrow> store \<Rightarrow> (error + bool) \<times> store" where
  "deleteUser userId s =
     (Inr True,
      s\<lparr>users := filter (\<lambda>r. User.id (heap s r) \<noteq> userId) (users s),
        feedbacks := filter (\<lambda>f. Feedback.studentId f \<noteq> userId) (feedbacks s)\<rparr>)"

record DashboardStats =
  studentCount :: nat
  feedbackCount :: nat
  courseCount :: nat

definition getDashboardStats :: "store \<Rightarrow> DashboardStats" where
  "getDashboardStats s =
     \<lparr>studentCount = length (filter (\<lambda>r. User.role (heap s r) = STUDENT) (users s)),
      feedbackCount = length (feedbacks s),
      courseCount = length (courses s)\<rparr>"

text \<open>The records that the references of the array \<open>users\<close> point to.\<close>

definition user_records :: "store \<Rightarrow> User list" where
  "user_records s = map (heap s) (users s)"

section \<open>Average rating per course\<close>

text \<open>
  \<open>getCourseRatings\<close> divides two numbers and rounds the quotient with \<open>toFixed(2)\<close>,
  so its result depends on the arithmetic of doubles. A finite double is the rational
  number it denotes; \<open>to_double\<close> is the rounding of a rational to the nearest double
  (53 significant bits, ties to the even significand; the exponent is unbounded here,
  so overflow and subnormal numbers are outside the model).
\<close>

definition pow2 :: "int \<Rightarrow> rat" where
  "pow2 e = (if 0 \<le> e then 2 ^ nat e else 1 / 2 ^ nat (- e))"

text \<open>\<open>\<lfloor>log\<^sub>2 a\<rfloor>\<close> for a positive rational \<open>a\<close>, from the bit lengths of integers.\<close>

definition floor_log2 :: "rat \<Rightarrow> int" where
  "floor_log2 a = (if 1 \<le> a then bitlen \<lfloor>a\<rfloor> - 1 else - bitlen (\<lceil>1 / a\<rceil> - 1))"

definition round_half_even :: "rat \<Rightarrow> int" where
  "round_half_even x =
     (let f = \<lfloor>x\<rfloor>; r = x - of_int f
      in if r < 1 / 2 then f else if 1 / 2 < r then f + 1 else if even f then f else f + 1)"

definition to_double :: "rat \<Rightarrow> rat" where
  "to_double q =
     (if q = 0 then 0
      else let e = floor_log2 \<bar>q\<bar> - 52
           in sgn q * of_int (round_half_even (\<bar>q\<bar> / pow2 e)) * pow2 e)"

text \<open>
  \<open>x.toFixed(2)\<close> prints the integer \<open>n\<close> of hundredths for which \<open>n / 100 - x\<close> is
  closest to zero, the larger \<open>n\<close> if there are two; a negative \<open>x\<close> is printed as
  the sign and the digits of \<open>- x\<close>. From \<open>10\<^sup>2\<^sup>1\<close> on it prints \<open>x\<close> in full.
  \<open>parseFloat\<close> reads the digits back as the nearest double.
\<close>

definition toFixed2 :: "rat \<Rightarrow> int" where
  "toFixed2 x = (if x < 0 then - \<lfloor>(- x) * 100 + 1 / 2\<rfloor> else \<lfloor>x * 100 + 1 / 2\<rfloor>)"

definition parseFloat_toFixed2 :: "rat \<Rightarrow> rat" where
  "parseFloat_toFixed2 x =
     (if 10 ^ 21 \<le> \<bar>x\<bar> then x else to_double (of_int (toFixed2 x) / 100))"

text \<open>
  The sum and the quotient of two finite doubles are the exact results rounded to the
  nearest double. A division by zero gives \<open>NaN\<close> or an infinity, which is no finite
  double: \<open>None\<close>.
\<close>

definition plus_double :: "rat \<Rightarrow> rat \<Rightarrow> rat" where
  "plus_double a b = to_double (a + b)"

definition divide_double :: "rat \<Rightarrow> rat \<Rightarrow> rat option" where
  "divide_double a b = (if b = 0 then None else Some (to_double (a / b)))"

text \<open>
  The entries \<open>{ total, count }\<close> of \<open>ratingsMap\<close>. \<open>total\<close> is a double, to which
  \<open>current.total += f.rating\<close> adds the rating in double arithmetic; a rating is an
  integer, which a double holds exactly up to \<open>2 ^ 53\<close>. \<open>count\<close> counts elements of an
  array, whose length is below \<open>2 ^ 32\<close>, so \<open>count++\<close> is exact.
\<close>

record RatingSum =
  total :: rat
  count :: nat

definition add_rating ::
  "Feedback \<Rightarrow> (string \<rightharpoonup> RatingSum) \<Rightarrow> (string \<rightharpoonup> RatingSum)" where
  "add_rating f ratingsMap =
     (let m = (if ratingsMap (Feedback.courseId f) = None
               then ratingsMap(Feedback.courseId f \<mapsto> \<lparr>total = 0, count = 0\<rparr>)
               else ratingsMap)
      in case m (Feedback.courseId f) of
           None \<Rightarrow> m
         | Some current \<Rightarrow>
             m(Feedback.courseId f \<mapsto>
                 \<lparr>total = plus_double (RatingSum.total current) (of_int (Feedback.rating f)),
                  count = RatingSum.count current + 1\<rparr>))"

text \<open>\<open>entry?.total || 0\<close> and \<open>entry?.count || 1\<close>: the number 0 is falsy, as \<open>undefined\<close> is.\<close>

definition total_or_0 :: "RatingSum option \<Rightarrow> rat" where
  "total_or_0 entry =
     (case entry of None \<Rightarrow> 0
      | Some e \<Rightarrow> if RatingSum.total e = 0 then 0 else RatingSum.total e)"

definition count_or_1 :: "RatingSum option \<Rightarrow> nat" where
  "count_or_1 entry =
     (case entry of None \<Rightarrow> 1
      | Some e \<Rightarrow> if RatingSum.count e = 0 then 1 else RatingSum.count e)"

record CourseRating =
  name :: string
  avgRating :: rat

text \<open>
  \<open>sort((a, b) => b.avgRating - a.avgRating)\<close>: the highest average first; the sort is
  stable. The result is \<open>None\<close> when an average is not a finite double: the comparator
  then returns \<open>NaN\<close>, and the order that \<open>sort\<close> leaves is implementation-defined.
\<close>

definition getCourseRatings :: "store \<Rightarrow> CourseRating list option" where
  "getCourseRatings s =
     (let ratingsMap = fold add_rating (feedbacks s) Map.empty;
          ratings =
            map (\<lambda>course.
                   map_option
                     (\<lambda>quotient.
                        \<lparr>name = Course.name course,
                         avgRating = parseFloat_toFixed2 quotient\<rparr>)
                     (divide_double
                        (total_or_0 (ratingsMap (Course.id course)))
                        (of_nat (count_or_1 (ratingsMap (Course.id course))))))
              (courses s)
      in map_option (sort_key (\<lambda>e. - avgRating e)) (those ratings))"

text \<open>
  The total that the loop of \<open>getCourseRatings\<close> leaves for one course: its ratings
  added in the order of the array, every sum rounded to a double.
\<close>

fun double_sum :: "rat \<Rightarrow> int list \<Rightarrow> rat" where
  "double_sum t [] = t"
| "double_sum t (r # rs) = double_sum (plus_double t (of_int r)) rs"

text \<open>
  The specification of \<open>getCourseRatings\<close> in its own words, for comparison with the
  function above: the ratings of the feedbacks whose \<open>courseId\<close> is the id of the
  course, and their mean, which for a course without feedback is \<open>0 / 1\<close>.
\<close>

definition course_ratings :: "store \<Rightarrow> string \<Rightarrow> int list" where
  "course_ratings s cid =
     map Feedback.rating (filter (\<lambda>f. Feedback.courseId f = cid) (feedbacks s))"

definition mean_rating :: "store \<Rightarrow> string \<Rightarrow> rat" where
  "mean_rating s cid =
     (let rs = course_ratings s cid
      in if rs = [] then 0 / 1 else of_int (sum_list rs) / of_nat (length rs))"

section \<open>The API as a whole\<close>

text \<open>One call of an API function, and what it resolves with.\<close>

datatype call =
    Login string string
  | Signup string string string
  | UpdateProfile string PartialUser
  | ChangePassword string string string
  | GetCourses
  | AddCourse CourseData
  | UpdateCourse string PartialCourse
  | DeleteCourse string
  | GetStudentFeedback string "number option" "number option"
  | GetAllFeedback "number option" "number option" "Filters option"
  | AddFeedback FeedbackData
  | UpdateFeedback string PartialFeedback
  | DeleteFeedback string
  | GetUsers "number option" "number option"
  | UpdateUserStatus string bool
  | DeleteUser string
  | GetDashboardStats
  | GetCourseRatings

datatype response =
    AUser ref
  | ABoolean bool
  | ACourse Course
  | AFeedback Feedback
  | Courses "Course list"
  | FeedbackPage "Feedback page"
  | UserPage "ref page"
  | Stats DashboardStats
  | Ratings "CourseRating list option"

definition resolved ::
  "('a \<Rightarrow> response) \<Rightarrow> (error + 'a) \<times> store \<Rightarrow> (error + response) \<times> store" where
  "resolved wrap r = (map_sum (\<lambda>e. e) wrap (fst r), snd r)"

fun api ::
  "(string \<Rightarrow> 'k::linorder) \<Rightarrow> int \<Rightarrow> call \<Rightarrow> store \<Rightarrow> (error + response) \<times> store" where
  "api collate now (Login e p) s = (map_sum (\<lambda>e. e) AUser (login e p s), s)"
| "api collate now (Signup n e p) s = resolved AUser (signup now n e p s)"
| "api collate now (UpdateProfile i d) s = resolved AUser (updateProfile i d s)"
| "api collate now (ChangePassword i p q) s = resolved ABoolean (changePassword i p q s)"
| "api collate now GetCourses s = (Inr (Courses (getCourses s)), s)"
| "api collate now (AddCourse d) s = resolved ACourse (addCourse now d s)"
| "api collate now (UpdateCourse i d) s = resolved ACourse (updateCourse i d s)"
| "api collate now (DeleteCourse i) s = resolved ABoolean (deleteCourse i s)"
| "api collate now (GetStudentFeedback i p l) s =
     (Inr (FeedbackPage (getStudentFeedback i p l s)), s)"
| "api collate now (GetAllFeedback p l f) s = (Inr (FeedbackPage (getAllFeedback p l f s)), s)"
| "api collate now (AddFeedback d) s = resolved AFeedback (addFeedback now d s)"
| "api collate now (UpdateFeedback i d) s = resolved AFeedback (updateFeedback i d s)"
| "api collate now (DeleteFeedback i) s = resolved ABoolean (deleteFeedback i s)"
| "api collate now (GetUsers p l) s = (Inr (UserPage (getUsers collate p l s)), s)"
| "api collate now (UpdateUserStatus i b) s = resolved AUser (updateUserStatus i b s)"
| "api collate now (DeleteUser i) s = resolved ABoolean (deleteUser i s)"
| "api collate now GetDashboardStats s = (Inr (Stats (getDashboardStats s)), s)"
| "api collate now GetCourseRatings s = (Inr (Ratings (getCourseRatings s)), s)"

section \<open>A small database\<close>

text \<open>
  A database in the shape that \<open>createInitialData\<close> builds: the administrator, the
  student, the first two test students (the second one, \<open>user-4\<close>, is blocked), two
  courses and three feedbacks. The theorems about single calls are run on it.
\<close>

definition admin_user :: User where
  "admin_user =
     \<lparr>User.id = ''user-1'', name = ''Admin User'', email = ''admin@example.com'',
      password = Some ''Admin@1234!'', role = ADMIN,
      profilePicture = Some ''https://picsum.photos/seed/admin/200'',
      phoneNumber = None, dateOfBirth = None, address = None,
      isBlocked = False, createdAt = 1000\<rparr>"

definition student_user :: User where
  "student_user =
     \<lparr>User.id = ''user-2'', name = ''Student User'', email = ''student@example.com'',
      password = Some ''Student@1234!'', role = STUDENT,
      profilePicture = Some ''https://picsum.photos/seed/student/200'',
      phoneNumber = Some ''123-456-7890'', dateOfBirth = Some ''2000-01-01'',
      address = Some ''123 University Ave'',
      isBlocked = False, createdAt = 1000\<rparr>"

definition test_student_1 :: User where
  "test_student_1 =
     \<lparr>User.id = ''user-3'', name = ''Test Student 1'', email = ''student1@example.com'',
      password = Some ''Password@123!'', role = STUDENT,
      profilePicture = None, phoneNumber = None, dateOfBirth = None, address = None,
      isBlocked = False, createdAt = 700\<rparr>"

definition test_student_2 :: User where
  "test_student_2 =
     \<lparr>User.id = ''user-4'', name = ''Test Student 2'', email = ''student2@example.com'',
      password = Some ''Password@123!'', role = STUDENT,
      profilePicture = None, phoneNumber = None, dateOfBirth = None, address = None,
      isBlocked = True, createdAt = 600\<rparr>"

definition course_1 :: Course where
  "course_1 =
     \<lparr>Course.id = ''course-1'', name = ''Introduction to React'',
      description = ''A comprehensive course on Introduction to React.'',
      link = Some ''https://www.youtube.com/watch?v=bMknfKXIFA8'',
      thumbnail = Some ''https://picsum.photos/seed/react/400/200'',
      createdAt = 1000\<rparr>"

definition course_2 :: Course where
  "course_2 =
     \<lparr>Course.id = ''course-2'', name = ''Advanced TypeScript'',
      description = ''A comprehensive course on Advanced TypeScript.'',
      link = Some ''https://www.youtube.com/watch?v=gp5H0Lw_g_4'',
      thumbnail = Some ''https://picsum.photos/seed/typescript/400/200'',
      createdAt = 1000\<rparr>"

definition feedback_1 :: Feedback where
  "feedback_1 =
     \<lparr>Feedback.id = ''feedback-1'', studentId = ''user-2'', studentName = ''Student User'',
      courseId = ''course-1'', rating = 4, message = ''This was a great course.'',
      createdAt = 900\<rparr>"

definition feedback_2 :: Feedback where
  "feedback_2 =
     \<lparr>Feedback.id = ''feedback-2'', studentId = ''user-2'', studentName = ''Student User'',
      courseId = ''course-1'', rating = 2, message = ''This was a decent course.'',
      createdAt = 800\<rparr>"

definition feedback_3 :: Feedback where
  "feedback_3 =
     \<lparr>Feedback.id = ''feedback-3'', studentId = ''user-3'',
      studentName = ''Test Student 1'',
      courseId = ''course-2'', rating = 5, message = ''This was a great course.'',
      createdAt = 950\<rparr>"

definition example_heap :: "ref \<Rightarrow> User" where
  "example_heap =
     (\<lambda>r. admin_user)(1 := student_user, 2 := test_student_1, 3 := test_student_2)"

definition example_store :: store where
  "example_store =
     \<lparr>heap = example_heap, next_ref = 4, users = [0, 1, 2, 3],
      courses = [course_1, course_2],
      feedbacks = [feedback_1, feedback_2, feedback_3]\<rparr>"

text \<open>
  Two profile updates: one names \<open>id\<close> and \<open>role\<close>, the other one is what the profile
  form sends (a new name, and the key \<open>profilePicture\<close> with the value \<open>undefined\<close>).
\<close>

definition promote_to_admin :: PartialUser where
  "promote_to_admin =
     \<lparr>PartialUser.id = Some ''user-1'', name = None, email = None, password = None,
      role = Some ADMIN, profilePicture = None, phoneNumber = None, dateOfBirth = None,
      address = None, isBlocked = None, createdAt = None\<rparr>"

definition rename_student :: PartialUser where
  "rename_student =
     \<lparr>PartialUser.id = None, name = Some ''Renamed Student'', email = None, password = None,
      role = None, profilePicture = Some None, phoneNumber = None, dateOfBirth = None,
      address = None, isBlocked = None, createdAt = None\<rparr>"

text \<open>
  A profile update that names the email of the administrator, and the data of a new
  course and of a new feedback.
\<close>

definition take_admin_email :: PartialUser where
  "take_admin_email =
     \<lparr>PartialUser.id = None, name = None, email = Some ''admin@example.com'',
      password = None, role = None, profilePicture = None, phoneNumber = None,
      dateOfBirth = None, address = None, isBlocked = None, createdAt = None\<rparr>"

definition new_course :: CourseData where
  "new_course =
     \<lparr>CourseData.name = ''Backend with Node.js'',
      description = ''A comprehensive course on Backend with Node.js.'',
      link = None, thumbnail = None\<rparr>"

definition new_feedback :: FeedbackData where
  "new_feedback =
     \<lparr>FeedbackData.studentId = ''user-3'', studentName = ''Test Student 1'',
      courseId = ''course-1'', rating = 3, message = ''This was a decent course.''\<rparr>"

text \<open>
  The small database with a third course, which no feedback names, and a fourth
  feedback, which makes the mean of \<open>course-1\<close> the fraction \<open>11 / 3\<close>.
\<close>

definition course_3 :: Course where
  "course_3 =
     \<lparr>Course.id = ''course-3'', name = ''UI/UX Design Principles'',
      description = ''A comprehensive course on UI/UX Design Principles.'',
      link = Some ''https://www.youtube.com/watch?v=cKsu3K8aC2g'',
      thumbnail = Some ''https://picsum.photos/seed/uiux/400/200'',
      createdAt = 1000\<rparr>"

definition feedback_4 :: Feedback where
  "feedback_4 =
     \<lparr>Feedback.id = ''feedback-4'', studentId = ''user-3'',
      studentName = ''Test Student 1'',
      courseId = ''course-1'', rating = 5, message = ''This was a great course.'',
      createdAt = 850\<rparr>"

definition rated_store :: store where
  "rated_store =
     example_store
       \<lparr>courses := [course_1, course_2, course_3],
        feedbacks := [feedback_1, feedback_2, feedback_3, feedback_4]\<rparr>"

lemmas example_defs =
  example_store_def example_heap_def admin_user_def student_user_def test_student_1_def
  test_student_2_def course_1_def course_2_def feedback_1_def feedback_2_def feedback_3_def

section \<open>Properties of the pagination helper\<close>

lemma relative_index_nonneg:
  "0 \<le> i \<Longrightarrow> relative_index len (Finite i) = min (nat i) len"
  by (simp add: relative_index_def)

lemma slice_finite:
  assumes "0 \<le> a" and "a \<le> b"
  shows "slice items (Finite a) (Finite b) = take (nat b - nat a) (drop (nat a) items)"
proof -
  have b: "0 \<le> b" using assms by simp
  have "take (min (nat b) (length items) - min (nat a) (length items))
          (drop (min (nat a) (length items)) items)
        = take (nat b - nat a) (drop (nat a) items)"
  proof (cases "nat a \<le> length items")
    case True
    then show ?thesis
      by (cases "nat b \<le> length items") (simp_all add: min_def)
  next
    case False
    then show ?thesis by simp
  qed
  then show ?thesis
    using assms b by (simp add: slice_def Let_def relative_index_nonneg)
qed

lemma paginate_data_finite:
  assumes "1 \<le> page" and "1 \<le> limit"
  shows "data (paginate items (Finite page) (Finite limit))
         = take (nat limit) (drop (nat ((page - 1) * limit)) items)"
proof -
  have a: "0 \<le> (page - 1) * limit" using assms by simp
  have ab: "(page - 1) * limit \<le> page * limit"
    using assms by (simp add: mult_right_mono)
  have "nat (page * limit) - nat ((page - 1) * limit) = nat limit"
  proof -
    have "page * limit - (page - 1) * limit = limit" by (simp add: algebra_simps)
    then show ?thesis using a ab by (simp add: nat_diff_distrib' [symmetric])
  qed
  then show ?thesis
    using slice_finite [OF a ab, of items] by (simp add: paginate_def Let_def)
qed

lemma ceil_quotient_Finite:
  "ceil_quotient len (Finite n) =
     (if n = 0 then (if len = 0 then NaN else Infinity) else Finite (- (- int len div n)))"
  using ceiling_divide_eq_div [of "int len" n, where ?'a = rat]
  by (simp add: ceil_quotient_def)

lemma ceiling_quotient_bounds:
  assumes "1 \<le> limit"
  shows "int len \<le> \<lceil>rat_of_nat len / rat_of_int limit\<rceil> * limit
         \<and> (\<lceil>rat_of_nat len / rat_of_int limit\<rceil> - 1) * limit < int len"
proof -
  let ?q = "rat_of_nat len / rat_of_int limit"
  have pos: "0 < rat_of_int limit" using assms by simp
  have "rat_of_nat len \<le> of_int \<lceil>?q\<rceil> * rat_of_int limit"
    by (rule ceiling_divide_upper [OF pos])
  then have "rat_of_int (int len) \<le> rat_of_int (\<lceil>?q\<rceil> * limit)" by simp
  then have up: "int len \<le> \<lceil>?q\<rceil> * limit" by (simp only: of_int_le_iff)
  have "(of_int \<lceil>?q\<rceil> - 1) * rat_of_int limit < rat_of_nat len"
    by (rule ceiling_divide_lower [OF pos])
  then have "rat_of_int ((\<lceil>?q\<rceil> - 1) * limit) < rat_of_int (int len)" by simp
  then have lo: "(\<lceil>?q\<rceil> - 1) * limit < int len" by (simp only: of_int_less_iff)
  show ?thesis using up lo by simp
qed

lemma paginate_beyond_last_page:
  assumes "1 \<le> page" and "1 \<le> limit"
    and "\<lceil>rat_of_nat (length items) / rat_of_int limit\<rceil> < page"
  shows "data (paginate items (Finite page) (Finite limit)) = []"
proof -
  let ?tp = "\<lceil>rat_of_nat (length items) / rat_of_int limit\<rceil>"
  have "?tp \<le> page - 1" using assms(3) by simp
  then have "?tp * limit \<le> (page - 1) * limit"
    using assms(2) by (simp add: mult_right_mono)
  moreover have "int (length items) \<le> ?tp * limit"
    using ceiling_quotient_bounds [OF assms(2)] by simp
  ultimately have "int (length items) \<le> (page - 1) * limit" by simp
  then have "length items \<le> nat ((page - 1) * limit)" by simp
  then show ?thesis by (simp add: paginate_data_finite [OF assms(1,2)])
qed

lemma paginate_Infinity_first:
  "paginate items (Finite 1) Infinity
   = \<lparr>data = items, total = length items, totalPages = Finite 0\<rparr>"
  by (simp add: paginate_def Let_def slice_def relative_index_def ceil_quotient_def)

lemma paginate_Infinity_later:
  "2 \<le> page \<Longrightarrow> data (paginate items (Finite page) Infinity) = []"
  by (simp add: paginate_def Let_def slice_def relative_index_def)

subsection \<open>Claim C1: the pagination primitive\<close>

text \<open>
  C1, as the code has it. For every sequence, every integer page \<open>\<ge> 1\<close> and every
  finite integer page size \<open>\<ge> 1\<close>, \<open>paginate\<close> returns \<open>total = length items\<close>,
  \<open>totalPages = \<lceil>total / limit\<rceil>\<close> (the least number of pages of that size that hold
  the sequence) and \<open>data = items[(page - 1) * limit : page * limit]\<close>; so \<open>data\<close> has
  at most \<open>limit\<close> elements and is empty when the page exceeds \<open>totalPages\<close>. With the
  page size \<open>Infinity\<close>, which the export passes, \<open>totalPages\<close> is 0, page 1 holds the
  whole sequence and every later page is empty. \<open>getUsers\<close>, \<open>getStudentFeedback\<close> and
  \<open>getAllFeedback\<close> return what \<open>paginate\<close> returns on their sorted sequence.
\<close>

theorem paginate_finite_limit:
  assumes "1 \<le> page" and "1 \<le> limit"
  shows
    "(let r = paginate items (Finite page) (Finite limit);
          pages = \<lceil>rat_of_nat (length items) / rat_of_int limit\<rceil>
      in page.total r = length items
       \<and> totalPages r = Finite pages
       \<and> int (length items) \<le> pages * limit \<and> (pages - 1) * limit < int (length items)
       \<and> data r = take (nat (page * limit) - nat ((page - 1) * limit))
                     (drop (nat ((page - 1) * limit)) items)
       \<and> data r = take (nat limit) (drop (nat ((page - 1) * limit)) items)
       \<and> length (data r) \<le> nat limit
       \<and> (greater_number (Finite page) (totalPages r) \<longrightarrow> data r = []))
     \<and> paginate items (Finite 1) Infinity
         = \<lparr>data = items, total = length items, totalPages = Finite 0\<rparr>
     \<and> data (paginate items (Finite (page + 1)) Infinity) = []
     \<and> getUsers collate (Some (Finite page)) (Some (Finite limit)) s
         = paginate (sort_key (\<lambda>r. collate (User.name (heap s r))) (users s))
             (Finite page) (Finite limit)
     \<and> getStudentFeedback sid (Some (Finite page)) (Some (Finite limit)) s
         = paginate (sort_newest_first (filter (\<lambda>f. Feedback.studentId f = sid) (feedbacks s)))
             (Finite page) (Finite limit)
     \<and> getAllFeedback (Some (Finite page)) (Some (Finite limit)) None s
         = paginate (sort_newest_first (feedbacks s)) (Finite page) (Finite limit)"
proof -
  let ?r = "paginate items (Finite page) (Finite limit)"
  let ?pages = "\<lceil>rat_of_nat (length items) / rat_of_int limit\<rceil>"
  have t: "page.total ?r = length items"
    by (simp add: paginate_def Let_def)
  have tp: "totalPages ?r = Finite ?pages"
    using assms(2) by (simp add: paginate_def Let_def ceil_quotient_def)
  have b: "int (length items) \<le> ?pages * limit \<and> (?pages - 1) * limit < int (length items)"
    by (rule ceiling_quotient_bounds [OF assms(2)])
  have lo: "0 \<le> (page - 1) * limit" using assms by simp
  have hi: "(page - 1) * limit \<le> page * limit"
    using assms by (simp add: mult_right_mono)
  have d0: "data ?r = take (nat (page * limit) - nat ((page - 1) * limit))
                        (drop (nat ((page - 1) * limit)) items)"
    using slice_finite [OF lo hi, of items] by (simp add: paginate_def Let_def)
  have d: "data ?r = take (nat limit) (drop (nat ((page - 1) * limit)) items)"
    by (rule paginate_data_finite [OF assms])
  have l: "length (data ?r) \<le> nat limit"
    by (simp add: d)
  have e: "greater_number (Finite page) (totalPages ?r) \<longrightarrow> data ?r = []"
    using paginate_beyond_last_page [OF assms, of items] by (simp add: tp)
  have i1: "paginate items (Finite 1) Infinity
            = \<lparr>data = items, total = length items, totalPages = Finite 0\<rparr>"
    by (rule paginate_Infinity_first)
  have i2: "data (paginate items (Finite (page + 1)) Infinity) = []"
    using assms(1) by (simp add: paginate_Infinity_later)
  have u: "getUsers collate (Some (Finite page)) (Some (Finite limit)) s
           = paginate (sort_key (\<lambda>r. collate (User.name (heap s r))) (users s))
               (Finite page) (Finite limit)"
    by (simp add: getUsers_def default_to_def)
  have f: "getStudentFeedback sid (Some (Finite page)) (Some (Finite limit)) s
           = paginate (sort_newest_first (filter (\<lambda>f. Feedback.studentId f = sid) (feedbacks s)))
               (Finite page) (Finite limit)"
    by (simp add: getStudentFeedback_def default_to_def)
  have g: "getAllFeedback (Some (Finite page)) (Some (Finite limit)) None s
           = paginate (sort_newest_first (feedbacks s)) (Finite page) (Finite limit)"
    by (simp add: getAllFeedback_def default_to_def truthy_string_def truthy_int_def)
  show ?thesis
    unfolding Let_def using t tp b d0 d l e i1 i2 u f g by blast
qed

text \<open>C1, witness: seven items in pages of three; page 2 and the empty page 4.\<close>

theorem paginate_finite_limit_witness:
  "(1::int) \<le> 2 \<and> (1::int) \<le> 3
   \<and> data (paginate ''abcdefg'' (Finite 2) (Finite 3)) = ''def''
   \<and> page.total (paginate ''abcdefg'' (Finite 2) (Finite 3)) = 7
   \<and> totalPages (paginate ''abcdefg'' (Finite 2) (Finite 3)) = Finite 3
   \<and> data (paginate ''abcdefg'' (Finite 4) (Finite 3)) = []"
proof -
  have c: "\<lceil>rat_of_nat (length ''abcdefg'') / rat_of_int 3\<rceil> = 3"
    using ceiling_divide_eq_div [of 7 3, where ?'a = rat] by simp
  show ?thesis
    using paginate_finite_limit [of 2 3 "''abcdefg''", THEN conjunct1]
          paginate_finite_limit [of 4 3 "''abcdefg''", THEN conjunct1]
    by (simp add: Let_def c)
qed

text \<open>
  C1, as stated, fails for the page size \<open>Infinity\<close>: \<open>Math.ceil(1 / Infinity)\<close> is 0,
  so page 1 exceeds \<open>totalPages\<close>, and yet \<open>slice(NaN, Infinity)\<close> returns the whole
  sequence.
\<close>

theorem paginate_Infinity_counterexample:
  "greater_number Infinity (Finite 0)
   \<and> totalPages (paginate ''a'' (Finite 1) Infinity) = Finite 0
   \<and> greater_number (Finite 1) (totalPages (paginate ''a'' (Finite 1) Infinity))
   \<and> data (paginate ''a'' (Finite 1) Infinity) \<noteq> []"
  by (simp add: paginate_def Let_def slice_def relative_index_def ceil_quotient_def)

section \<open>Deleting a user\<close>

lemma paginate_Nil:
  "data (paginate [] page limit) = [] \<and> page.total (paginate [] page limit) = 0"
  by (simp add: paginate_def Let_def slice_def)

lemma deleteUser_twice:
  "deleteUser userId (snd (deleteUser userId s)) = (Inr True, snd (deleteUser userId s))"
  by (simp add: deleteUser_def)

lemma getStudentFeedback_deleted:
  "getStudentFeedback userId page limit (snd (deleteUser userId s))
   = paginate [] (default_to (Finite 1) page) (default_to (Finite 5) limit)"
proof -
  have "filter (\<lambda>f. Feedback.studentId f = userId)
          (filter (\<lambda>f. Feedback.studentId f \<noteq> userId) (feedbacks s)) = []"
    by (simp add: filter_empty_conv)
  then show ?thesis
    by (simp add: getStudentFeedback_def deleteUser_def sort_newest_first_def)
qed

subsection \<open>Claim C3: deleting a user\<close>

text \<open>
  C3. \<open>deleteUser\<close> always resolves with \<open>true\<close>, whether or not a user has the id.
  It keeps exactly the users whose id differs and the feedbacks whose \<open>studentId\<close>
  differs, and leaves the courses alone; no user with the id and no feedback of that
  student remain. A second call resolves with \<open>true\<close> again and changes nothing at
  all. Afterwards \<open>getStudentFeedback\<close> for the id, page 1 and any limit (also the
  default one) returns no items and \<open>total = 0\<close>.
\<close>

theorem deleteUser_cascade:
  "fst (deleteUser userId s) = Inr True
   \<and> user_records (snd (deleteUser userId s))
       = filter (\<lambda>u. User.id u \<noteq> userId) (user_records s)
   \<and> feedbacks (snd (deleteUser userId s))
       = filter (\<lambda>f. Feedback.studentId f \<noteq> userId) (feedbacks s)
   \<and> courses (snd (deleteUser userId s)) = courses s
   \<and> heap (snd (deleteUser userId s)) = heap s
   \<and> userId \<notin> set (map User.id (user_records (snd (deleteUser userId s))))
   \<and> userId \<notin> set (map Feedback.studentId (feedbacks (snd (deleteUser userId s))))
   \<and> deleteUser userId (snd (deleteUser userId s)) = (Inr True, snd (deleteUser userId s))
   \<and> data (getStudentFeedback userId (Some (Finite 1)) n (snd (deleteUser userId s))) = []
   \<and> page.total (getStudentFeedback userId (Some (Finite 1)) n (snd (deleteUser userId s))) = 0"
proof -
  let ?s = "snd (deleteUser userId s)"
  have 1: "fst (deleteUser userId s) = Inr True"
    by (simp add: deleteUser_def)
  have 2: "user_records ?s = filter (\<lambda>u. User.id u \<noteq> userId) (user_records s)"
    by (simp add: deleteUser_def user_records_def filter_map comp_def)
  have 3: "feedbacks ?s = filter (\<lambda>f. Feedback.studentId f \<noteq> userId) (feedbacks s)"
    by (simp add: deleteUser_def)
  have 4: "courses ?s = courses s" and 5: "heap ?s = heap s"
    by (simp_all add: deleteUser_def)
  have 6: "userId \<notin> set (map User.id (user_records ?s))"
    by (auto simp: 2)
  have 7: "userId \<notin> set (map Feedback.studentId (feedbacks ?s))"
    by (auto simp: 3)
  have 8: "data (getStudentFeedback userId (Some (Finite 1)) n ?s) = []"
    and 9: "page.total (getStudentFeedback userId (Some (Finite 1)) n ?s) = 0"
    by (simp_all add: getStudentFeedback_deleted paginate_Nil)
  show ?thesis
    using 1 2 3 4 5 6 7 8 9 deleteUser_twice [of userId s] by blast
qed

text \<open>C3, on the small database: deleting \<open>user-2\<close> and the two feedbacks of that student.\<close>

theorem deleteUser_cascade_witness:
  "fst (deleteUser ''user-2'' example_store) = Inr True
   \<and> user_records (snd (deleteUser ''user-2'' example_store))
       = [admin_user, test_student_1, test_student_2]
   \<and> feedbacks (snd (deleteUser ''user-2'' example_store)) = [feedback_3]
   \<and> data (getStudentFeedback ''user-2'' (Some (Finite 1)) (Some (Finite 5))
             (snd (deleteUser ''user-2'' example_store))) = []"
proof -
  have u: "filter (\<lambda>u. User.id u \<noteq> ''user-2'') (user_records example_store)
           = [admin_user, test_student_1, test_student_2]"
    by (simp add: user_records_def example_defs)
  have f: "filter (\<lambda>f. Feedback.studentId f \<noteq> ''user-2'') (feedbacks example_store)
           = [feedback_3]"
    by (simp add: example_defs)
  show ?thesis
    using deleteUser_cascade [of "''user-2''" example_store "Some (Finite 5)"] u f
    by simp
qed

section \<open>Filters of the feedback list\<close>

lemma length_sort_newest_first: "length (sort_newest_first fs) = length fs"
  by (simp add: sort_newest_first_def)

lemma getAllFeedback_no_filter:
  assumes "\<not> truthy_string (Filters.courseId f)" and "\<not> truthy_int (Filters.rating f)"
  shows "getAllFeedback page limit (Some f) s
         = paginate (sort_newest_first (feedbacks s))
             (default_to (Finite 1) page) (default_to (Finite 10) limit)"
  using assms by (simp add: getAllFeedback_def default_to_def Let_def)

subsection \<open>Claim C10: falsy filters of getAllFeedback\<close>

text \<open>
  C10. \<open>getAllFeedback\<close> tests its filters for truthiness. With \<open>rating: 0\<close> it returns
  what it returns with no rating filter, and with \<open>courseId: ''\<close> what it returns with
  no course filter. A caller that passes only \<open>rating: 0\<close> gets the result of a call
  without filters: \<open>total\<close> counts every feedback, and page 1 of unbounded size is
  the whole collection, newest first.
\<close>

theorem getAllFeedback_falsy_filters:
  "getAllFeedback page limit (Some \<lparr>courseId = c, rating = Some 0\<rparr>) s
   = getAllFeedback page limit (Some \<lparr>courseId = c, rating = None\<rparr>) s
   \<and> getAllFeedback page limit (Some \<lparr>courseId = Some [], rating = r\<rparr>) s
     = getAllFeedback page limit (Some \<lparr>courseId = None, rating = r\<rparr>) s
   \<and> getAllFeedback page limit (Some \<lparr>courseId = None, rating = Some 0\<rparr>) s
     = getAllFeedback page limit None s
   \<and> page.total (getAllFeedback page limit (Some \<lparr>courseId = None, rating = Some 0\<rparr>) s)
     = length (feedbacks s)
   \<and> data (getAllFeedback (Some (Finite 1)) (Some Infinity)
              (Some \<lparr>courseId = None, rating = Some 0\<rparr>) s)
     = sort_newest_first (feedbacks s)"
proof -
  have 1: "getAllFeedback page limit (Some \<lparr>courseId = c, rating = Some 0\<rparr>) s
           = getAllFeedback page limit (Some \<lparr>courseId = c, rating = None\<rparr>) s"
    by (simp add: getAllFeedback_def default_to_def Let_def truthy_int_def)
  have 2: "getAllFeedback page limit (Some \<lparr>courseId = Some [], rating = r\<rparr>) s
           = getAllFeedback page limit (Some \<lparr>courseId = None, rating = r\<rparr>) s"
    by (simp add: getAllFeedback_def default_to_def Let_def truthy_string_def)
  have 3: "getAllFeedback page limit (Some \<lparr>courseId = None, rating = Some 0\<rparr>) s
           = getAllFeedback page limit None s"
    by (simp add: getAllFeedback_def default_to_def Let_def truthy_string_def truthy_int_def)
  have all: "getAllFeedback p l (Some \<lparr>courseId = None, rating = Some 0\<rparr>) s
             = paginate (sort_newest_first (feedbacks s))
                 (default_to (Finite 1) p) (default_to (Finite 10) l)" for p l
    by (rule getAllFeedback_no_filter) (simp_all add: truthy_string_def truthy_int_def)
  have 4: "page.total (getAllFeedback page limit (Some \<lparr>courseId = None, rating = Some 0\<rparr>) s)
           = length (feedbacks s)"
    by (simp add: all paginate_def Let_def length_sort_newest_first)
  have 5: "data (getAllFeedback (Some (Finite 1)) (Some Infinity)
                   (Some \<lparr>courseId = None, rating = Some 0\<rparr>) s)
           = sort_newest_first (feedbacks s)"
    by (simp add: all default_to_def paginate_Infinity_first)
  show ?thesis using 1 2 3 4 5 by blast
qed

text \<open>
  C10, on the small database: the filter \<open>rating: 0\<close> returns the feedbacks with the
  ratings 5, 4 and 2.
\<close>

theorem getAllFeedback_falsy_filters_witness:
  "data (getAllFeedback (Some (Finite 1)) (Some Infinity)
           (Some \<lparr>courseId = None, rating = Some 0\<rparr>) example_store)
   = [feedback_3, feedback_1, feedback_2]
   \<and> map Feedback.rating [feedback_3, feedback_1, feedback_2] = [5, 4, 2]"
proof -
  have srt: "sort_newest_first (feedbacks example_store)
             = [feedback_3, feedback_1, feedback_2]"
    by (simp add: sort_newest_first_def example_defs)
  have ratings: "map Feedback.rating [feedback_3, feedback_1, feedback_2] = [5, 4, 2]"
    by (simp add: feedback_1_def feedback_2_def feedback_3_def)
  have "data (getAllFeedback (Some (Finite 1)) (Some Infinity)
                (Some \<lparr>courseId = None, rating = Some 0\<rparr>) example_store)
        = sort_newest_first (feedbacks example_store)"
    using getAllFeedback_falsy_filters
            [where page = "Some (Finite 1)" and limit = "Some Infinity"
               and c = "Some ''course-1''" and r = "Some 5" and s = example_store]
    by blast
  then show ?thesis
    using srt ratings by simp
qed

section \<open>Rejections\<close>

lemma signup_rejected: "fst (signup now n e p s) = Inl err \<Longrightarrow> snd (signup now n e p s) = s"
  by (auto simp: signup_def Let_def split: if_splits)

lemma updateProfile_rejected:
  "fst (updateProfile i d s) = Inl err \<Longrightarrow> snd (updateProfile i d s) = s"
  by (auto simp: updateProfile_def Let_def split: option.splits)

lemma changePassword_rejected:
  "fst (changePassword i p q s) = Inl err \<Longrightarrow> snd (changePassword i p q s) = s"
  by (auto simp: changePassword_def split: option.splits if_splits)

lemma updateCourse_rejected:
  "fst (updateCourse i d s) = Inl err \<Longrightarrow> snd (updateCourse i d s) = s"
  by (auto simp: updateCourse_def Let_def split: option.splits)

lemma updateFeedback_rejected:
  "fst (updateFeedback i d s) = Inl err \<Longrightarrow> snd (updateFeedback i d s) = s"
  by (auto simp: updateFeedback_def Let_def split: option.splits)

lemma updateUserStatus_rejected:
  "fst (updateUserStatus i b s) = Inl err \<Longrightarrow> snd (updateUserStatus i b s) = s"
  by (auto simp: updateUserStatus_def split: option.splits)

lemma resolved_rejected:
  assumes "\<And>err. fst r = Inl err \<Longrightarrow> snd r = s"
    and "fst (resolved wrap r) = Inl e"
  shows "snd (resolved wrap r) = s"
proof (cases "fst r")
  case (Inl err)
  then show ?thesis using assms(1) by (simp add: resolved_def)
next
  case (Inr v)
  then show ?thesis using assms(2) by (simp add: resolved_def)
qed

subsection \<open>Claim C9: a rejected call writes nothing\<close>

text \<open>
  C9. Whenever a call of any API function rejects, the database after the call is the
  database before it: the arrays of users, courses and feedbacks and the user records
  are unchanged. In particular a \<open>signup\<close> that rejects does so with
  \<open>Email already exists\<close> and leaves the number of users unchanged.
\<close>

theorem rejected_call_changes_nothing:
  assumes "fst (api collate now c s) = Inl e"
  shows "snd (api collate now c s) = s
         \<and> users (snd (api collate now c s)) = users s
         \<and> user_records (snd (api collate now c s)) = user_records s
         \<and> courses (snd (api collate now c s)) = courses s
         \<and> feedbacks (snd (api collate now c s)) = feedbacks s
         \<and> (\<forall>n e' p. c = Signup n e' p \<longrightarrow>
               e = Error ''Email already exists''
               \<and> length (users (snd (signup now n e' p s))) = length (users s))"
proof -
  have "snd (api collate now c s) = s"
  proof (cases c)
    case (Signup n e' p)
    then show ?thesis
      using assms resolved_rejected [OF signup_rejected] by auto
  next
    case (UpdateProfile i d)
    then show ?thesis
      using assms resolved_rejected [OF updateProfile_rejected] by auto
  next
    case (ChangePassword i p q)
    then show ?thesis
      using assms resolved_rejected [OF changePassword_rejected] by auto
  next
    case (UpdateCourse i d)
    then show ?thesis
      using assms resolved_rejected [OF updateCourse_rejected] by auto
  next
    case (UpdateFeedback i d)
    then show ?thesis
      using assms resolved_rejected [OF updateFeedback_rejected] by auto
  next
    case (UpdateUserStatus i b)
    then show ?thesis
      using assms resolved_rejected [OF updateUserStatus_rejected] by auto
  next
    case (AddCourse d)
    then show ?thesis
      using assms by (simp add: resolved_def addCourse_def Let_def)
  next
    case (AddFeedback d)
    then show ?thesis
      using assms by (simp add: resolved_def addFeedback_def Let_def)
  next
    case (DeleteCourse i)
    then show ?thesis
      using assms by (simp add: resolved_def deleteCourse_def)
  next
    case (DeleteFeedback i)
    then show ?thesis
      using assms by (simp add: resolved_def deleteFeedback_def)
  next
    case (DeleteUser i)
    then show ?thesis
      using assms by (simp add: resolved_def deleteUser_def)
  qed simp_all
  moreover have "e = Error ''Email already exists''
                 \<and> length (users (snd (signup now n e' p s))) = length (users s)"
    if "c = Signup n e' p" for n e' p
  proof -
    have r: "fst (signup now n e' p s) = Inl e"
      using assms that by (cases "fst (signup now n e' p s)") (simp_all add: resolved_def)
    then have "e = Error ''Email already exists''"
      by (auto simp: signup_def Let_def split: if_splits)
    then show ?thesis using signup_rejected [OF r] by simp
  qed
  ultimately show ?thesis by simp
qed

text \<open>
  C9, on the small database: a signup with the administrator's email and a password
  change with a wrong current password both reject and leave the database as it was.
\<close>

theorem rejected_call_changes_nothing_witness:
  "fst (api length 2000 (Signup ''Second Admin'' ''admin@example.com'' ''Secret@123!'')
          example_store) = Inl (Error ''Email already exists'')
   \<and> snd (api length 2000 (Signup ''Second Admin'' ''admin@example.com'' ''Secret@123!'')
            example_store) = example_store
   \<and> fst (api length 2000 (ChangePassword ''user-2'' ''wrong'' ''Secret@123!'')
            example_store) = Inl (Error ''Invalid current password'')
   \<and> snd (api length 2000 (ChangePassword ''user-2'' ''wrong'' ''Secret@123!'')
            example_store) = example_store"
proof -
  have 1: "fst (api length 2000 (Signup ''Second Admin'' ''admin@example.com'' ''Secret@123!'')
                  example_store) = Inl (Error ''Email already exists'')"
    by (simp add: resolved_def signup_def example_defs)
  have 2: "fst (api length 2000 (ChangePassword ''user-2'' ''wrong'' ''Secret@123!'')
                  example_store) = Inl (Error ''Invalid current password'')"
    by (simp add: resolved_def changePassword_def example_defs)
  show ?thesis
    using 1 2 rejected_call_changes_nothing [OF 1] rejected_call_changes_nothing [OF 2]
    by simp
qed

section \<open>Users\<close>

lemma find_None_list_ex: "(find P xs = None) = (\<not> list_ex P xs)"
  by (auto simp: find_None_iff list_ex_iff)

lemma find_Some_member: "find P xs = Some x \<Longrightarrow> x \<in> set xs \<and> P x"
  by (auto simp: find_Some_iff)

subsection \<open>Claim C7: changing the password\<close>

text \<open>
  C7, as the code has it. \<open>changePassword\<close> rejects with the one error
  \<open>Invalid current password\<close> both when no user has the id and when the first user with
  the id has a different stored password; no other rejection exists, so the caller
  cannot tell the two cases apart. Otherwise it resolves with \<open>true\<close> after setting the
  password of that user object to the new one, and changes nothing else.
\<close>

theorem changePassword_single_rejection:
  "(\<not> list_ex (\<lambda>r. User.id (heap s r) = userId) (users s) \<longrightarrow>
      changePassword userId oldPass newPass s = (Inl (Error ''Invalid current password''), s))
   \<and> (\<forall>user. find (\<lambda>r. User.id (heap s r) = userId) (users s) = Some user
               \<and> User.password (heap s user) \<noteq> Some oldPass \<longrightarrow>
      changePassword userId oldPass newPass s = (Inl (Error ''Invalid current password''), s))
   \<and> (\<forall>user. find (\<lambda>r. User.id (heap s r) = userId) (users s) = Some user
               \<and> User.password (heap s user) = Some oldPass \<longrightarrow>
      changePassword userId oldPass newPass s
      = (Inr True, s\<lparr>heap := (heap s)(user := (heap s user)\<lparr>User.password := Some newPass\<rparr>)\<rparr>)
      \<and> User.password (heap (snd (changePassword userId oldPass newPass s)) user)
        = Some newPass
      \<and> users (snd (changePassword userId oldPass newPass s)) = users s)
   \<and> (\<forall>e. fst (changePassword userId oldPass newPass s) = Inl e \<longrightarrow>
          e = Error ''Invalid current password'')"
  by (auto simp: changePassword_def find_None_list_ex [symmetric] split: option.splits)

text \<open>C7, on the small database: the three cases for \<open>user-2\<close> and the absent \<open>user-99\<close>.\<close>

theorem changePassword_single_rejection_witness:
  "changePassword ''user-2'' ''Student@1234!'' ''Secret@123!'' example_store
   = (Inr True,
      example_store\<lparr>heap := (heap example_store)
                        (1 := (heap example_store 1)\<lparr>User.password := Some ''Secret@123!''\<rparr>)\<rparr>)
   \<and> changePassword ''user-2'' ''wrong'' ''Secret@123!'' example_store
     = (Inl (Error ''Invalid current password''), example_store)
   \<and> changePassword ''user-99'' ''Student@1234!'' ''Secret@123!'' example_store
     = (Inl (Error ''Invalid current password''), example_store)"
proof -
  have f: "find (\<lambda>r. User.id (heap example_store r) = ''user-2'') (users example_store)
           = Some 1"
    by (simp add: example_defs)
  have p: "User.password (heap example_store 1) = Some ''Student@1234!''"
    by (simp add: example_defs)
  have q: "User.password (heap example_store 1) \<noteq> Some ''wrong''"
    by (simp add: example_defs)
  have n: "\<not> list_ex (\<lambda>r. User.id (heap example_store r) = ''user-99'') (users example_store)"
    by (simp add: example_defs)
  show ?thesis
    using changePassword_single_rejection
            [of example_store "''user-2''" "''Student@1234!''" "''Secret@123!''"]
          changePassword_single_rejection
            [of example_store "''user-2''" "''wrong''" "''Secret@123!''"]
          changePassword_single_rejection
            [of example_store "''user-99''" "''Student@1234!''" "''Secret@123!''"]
          f p q n
    by blast
qed

text \<open>
  C7, as stated, fails: for the absent id \<open>user-99\<close> the rejection is not
  \<open>User not found\<close> (the error of \<open>updateProfile\<close> and \<open>updateUserStatus\<close> for an absent
  id) but the error of a wrong current password.
\<close>

theorem changePassword_NotFound_counterexample:
  "\<not> list_ex (\<lambda>r. User.id (heap example_store r) = ''user-99'') (users example_store)
   \<and> fst (changePassword ''user-99'' ''Student@1234!'' ''Secret@123!'' example_store)
     = Inl (Error ''Invalid current password'')
   \<and> fst (changePassword ''user-99'' ''Student@1234!'' ''Secret@123!'' example_store)
     \<noteq> Inl (Error ''User not found'')
   \<and> fst (changePassword ''user-99'' ''Student@1234!'' ''Secret@123!'' example_store)
     = fst (changePassword ''user-2'' ''wrong'' ''Secret@123!'' example_store)"
  by (simp add: changePassword_def example_defs)

subsection \<open>Claim C8: logging in\<close>

text \<open>
  C8, as the code has it. \<open>login\<close> rejects with \<open>Invalid credentials\<close> if and only if no
  user has exactly that email and password; it rejects with
  \<open>Your account is blocked.\<close> if and only if the first user with that email and
  password is blocked; otherwise it resolves with that user: the object of the array
  \<open>users\<close> itself (a reference, not a copy), whose fields include the password.
\<close>

theorem login_returns_stored_user:
  "(login email' password' s = Inl (Error ''Invalid credentials''))
   = (\<not> list_ex (\<lambda>r. User.email (heap s r) = email'
                     \<and> User.password (heap s r) = Some password') (users s))
   \<and> (login email' password' s = Inl (Error ''Your account is blocked.''))
     = (\<exists>u. find (\<lambda>r. User.email (heap s r) = email'
                       \<and> User.password (heap s r) = Some password') (users s) = Some u
            \<and> User.isBlocked (heap s u))
   \<and> (\<forall>u. (login email' password' s = Inr u)
          = (find (\<lambda>r. User.email (heap s r) = email'
                       \<and> User.password (heap s r) = Some password') (users s) = Some u
             \<and> \<not> User.isBlocked (heap s u)))
   \<and> (\<forall>u. login email' password' s = Inr u \<longrightarrow>
          u \<in> set (users s) \<and> User.email (heap s u) = email'
          \<and> User.password (heap s u) = Some password')"
proof -
  let ?P = "\<lambda>r. User.email (heap s r) = email' \<and> User.password (heap s r) = Some password'"
  show ?thesis
  proof (cases "find ?P (users s)")
    case None
    then show ?thesis
      using find_None_list_ex [of ?P "users s"] by (simp add: login_def)
  next
    case (Some u)
    then have "list_ex ?P (users s)"
      using find_None_list_ex [of ?P "users s"] by simp
    moreover have "u \<in> set (users s) \<and> ?P u"
      using Some by (rule find_Some_member)
    ultimately show ?thesis
      using Some by (auto simp: login_def)
  qed
qed

text \<open>C8, on the small database: the student, the blocked \<open>user-4\<close>, a wrong password.\<close>

theorem login_returns_stored_user_witness:
  "login ''student@example.com'' ''Student@1234!'' example_store = Inr 1
   \<and> heap example_store 1 = student_user
   \<and> login ''student2@example.com'' ''Password@123!'' example_store
     = Inl (Error ''Your account is blocked.'')
   \<and> login ''student@example.com'' ''wrong'' example_store
     = Inl (Error ''Invalid credentials'')"
proof -
  have 1: "find (\<lambda>r. User.email (heap example_store r) = ''student@example.com''
                    \<and> User.password (heap example_store r) = Some ''Student@1234!'')
             (users example_store) = Some 1"
    and 2: "\<not> User.isBlocked (heap example_store 1)"
    and 3: "find (\<lambda>r. User.email (heap example_store r) = ''student2@example.com''
                    \<and> User.password (heap example_store r) = Some ''Password@123!'')
             (users example_store) = Some 3"
    and 4: "User.isBlocked (heap example_store 3)"
    and 5: "\<not> list_ex (\<lambda>r. User.email (heap example_store r) = ''student@example.com''
                    \<and> User.password (heap example_store r) = Some ''wrong'')
             (users example_store)"
    and 6: "heap example_store 1 = student_user"
    by (simp_all add: example_defs)
  show ?thesis
    using login_returns_stored_user
            [of "''student@example.com''" "''Student@1234!''" example_store]
          login_returns_stored_user
            [of "''student2@example.com''" "''Password@123!''" example_store]
          login_returns_stored_user
            [of "''student@example.com''" "''wrong''" example_store]
          1 2 3 4 5 6
    by blast
qed

text \<open>
  C8, as stated, fails: the object that \<open>login\<close> resolves with is an element of the
  array \<open>users\<close>, not a copy of one. A later \<open>changePassword\<close> or \<open>updateUserStatus\<close>
  writes to that very object, so the holder of the login result sees the new password
  and the new \<open>isBlocked\<close>.
\<close>

theorem login_defensive_copy_counterexample:
  "login ''student@example.com'' ''Student@1234!'' example_store = Inr 1
   \<and> 1 \<in> set (users example_store)
   \<and> User.password (heap example_store 1) = Some ''Student@1234!''
   \<and> fst (changePassword ''user-2'' ''Student@1234!'' ''Secret@123!'' example_store) = Inr True
   \<and> User.password
        (heap (snd (changePassword ''user-2'' ''Student@1234!'' ''Secret@123!'' example_store)) 1)
      = Some ''Secret@123!''
   \<and> \<not> User.isBlocked (heap example_store 1)
   \<and> User.isBlocked (heap (snd (updateUserStatus ''user-2'' True example_store)) 1)"
  by (simp add: login_def changePassword_def updateUserStatus_def example_defs)

subsection \<open>Claim C6: updating a profile\<close>

text \<open>
  C6, as the code has it. For an absent id \<open>updateProfile\<close> rejects with
  \<open>User not found\<close>. For an existing id it resolves with a new object, the spread of
  the payload over the first user with the id: every field whose key is absent from
  the payload keeps its previous value, \<open>id\<close> and \<open>role\<close> among them, and every key
  present in the payload replaces the value, \<open>id\<close> and \<open>role\<close> among them. The new
  object takes the place of every user with the id in the array \<open>users\<close>.
\<close>

theorem updateProfile_merges:
  "(\<not> list_ex (\<lambda>r. User.id (heap s r) = userId) (users s) \<longrightarrow>
      updateProfile userId d s = (Inl (Error ''User not found''), s))
   \<and> (\<forall>old. find (\<lambda>r. User.id (heap s r) = userId) (users s) = Some old \<longrightarrow>
        (let new = heap (snd (updateProfile userId d s)) (next_ref s)
         in fst (updateProfile userId d s) = Inr (next_ref s)
          \<and> new = spread_User (heap s old) d
          \<and> (PartialUser.id d = None \<longrightarrow> User.id new = User.id (heap s old))
          \<and> (PartialUser.name d = None \<longrightarrow> User.name new = User.name (heap s old))
          \<and> (PartialUser.email d = None \<longrightarrow> User.email new = User.email (heap s old))
          \<and> (PartialUser.password d = None \<longrightarrow>
               User.password new = User.password (heap s old))
          \<and> (PartialUser.role d = None \<longrightarrow> User.role new = User.role (heap s old))
          \<and> (PartialUser.profilePicture d = None \<longrightarrow>
               User.profilePicture new = User.profilePicture (heap s old))
          \<and> (PartialUser.phoneNumber d = None \<longrightarrow>
               User.phoneNumber new = User.phoneNumber (heap s old))
          \<and> (PartialUser.dateOfBirth d = None \<longrightarrow>
               User.dateOfBirth new = User.dateOfBirth (heap s old))
          \<and> (PartialUser.address d = None \<longrightarrow> User.address new = User.address (heap s old))
          \<and> (PartialUser.isBlocked d = None \<longrightarrow>
               User.isBlocked new = User.isBlocked (heap s old))
          \<and> (PartialUser.createdAt d = None \<longrightarrow>
               User.createdAt new = User.createdAt (heap s old))
          \<and> (\<forall>v. PartialUser.id d = Some v \<longrightarrow> User.id new = v)
          \<and> (\<forall>v. PartialUser.role d = Some v \<longrightarrow> User.role new = v)
          \<and> users (snd (updateProfile userId d s))
            = map (\<lambda>u. if User.id (heap s u) = userId then next_ref s else u) (users s)
          \<and> next_ref s \<in> set (users (snd (updateProfile userId d s)))))"
proof -
  have none: "updateProfile userId d s = (Inl (Error ''User not found''), s)"
    if "\<not> list_ex (\<lambda>r. User.id (heap s r) = userId) (users s)"
    using that find_None_list_ex [of "\<lambda>r. User.id (heap s r) = userId" "users s"]
    by (simp add: updateProfile_def)
  have some: "fst (updateProfile userId d s) = Inr (next_ref s)
      \<and> heap (snd (updateProfile userId d s)) (next_ref s) = spread_User (heap s old) d
      \<and> users (snd (updateProfile userId d s))
        = map (\<lambda>u. if User.id (heap s u) = userId then next_ref s else u) (users s)
      \<and> next_ref s \<in> set (users (snd (updateProfile userId d s)))"
    if f: "find (\<lambda>r. User.id (heap s r) = userId) (users s) = Some old" for old
  proof -
    have "old \<in> set (users s) \<and> User.id (heap s old) = userId"
      using f by (auto simp: find_Some_iff)
    then have "next_ref s \<in> (\<lambda>u. if User.id (heap s u) = userId then next_ref s else u)
                 ` set (users s)"
      by force
    then show ?thesis
      using f by (simp add: updateProfile_def Let_def)
  qed
  have merged: "let new = heap (snd (updateProfile userId d s)) (next_ref s)
         in fst (updateProfile userId d s) = Inr (next_ref s)
          \<and> new = spread_User (heap s old) d
          \<and> (PartialUser.id d = None \<longrightarrow> User.id new = User.id (heap s old))
          \<and> (PartialUser.name d = None \<longrightarrow> User.name new = User.name (heap s old))
          \<and> (PartialUser.email d = None \<longrightarrow> User.email new = User.email (heap s old))
          \<and> (PartialUser.password d = None \<longrightarrow>
               User.password new = User.password (heap s old))
          \<and> (PartialUser.role d = None \<longrightarrow> User.role new = User.role (heap s old))
          \<and> (PartialUser.profilePicture d = None \<longrightarrow>
               User.profilePicture new = User.profilePicture (heap s old))
          \<and> (PartialUser.phoneNumber d = None \<longrightarrow>
               User.phoneNumber new = User.phoneNumber (heap s old))
          \<and> (PartialUser.dateOfBirth d = None \<longrightarrow>
               User.dateOfBirth new = User.dateOfBirth (heap s old))
          \<and> (PartialUser.address d = None \<longrightarrow> User.address new = User.address (heap s old))
          \<and> (PartialUser.isBlocked d = None \<longrightarrow>
               User.isBlocked new = User.isBlocked (heap s old))
          \<and> (PartialUser.createdAt d = None \<longrightarrow>
               User.createdAt new = User.createdAt (heap s old))
          \<and> (\<forall>v. PartialUser.id d = Some v \<longrightarrow> User.id new = v)
          \<and> (\<forall>v. PartialUser.role d = Some v \<longrightarrow> User.role new = v)
          \<and> users (snd (updateProfile userId d s))
            = map (\<lambda>u. if User.id (heap s u) = userId then next_ref s else u) (users s)
          \<and> next_ref s \<in> set (users (snd (updateProfile userId d s)))"
    if f: "find (\<lambda>r. User.id (heap s r) = userId) (users s) = Some old" for old
  proof -
    have n: "heap (snd (updateProfile userId d s)) (next_ref s) = spread_User (heap s old) d"
      using some [OF f] by blast
    have g: "fst (updateProfile userId d s) = Inr (next_ref s)"
      "users (snd (updateProfile userId d s))
       = map (\<lambda>u. if User.id (heap s u) = userId then next_ref s else u) (users s)"
      "next_ref s \<in> set (users (snd (updateProfile userId d s)))"
      using some [OF f] by blast+
    show ?thesis
      unfolding Let_def n
      by (intro conjI; (rule g)?; (simp add: spread_User_def spread_def)?)
  qed
  show ?thesis
    using none merged by blast
qed

text \<open>C6, on the small database: renaming \<open>user-2\<close>, and the absent \<open>user-99\<close>.\<close>

theorem updateProfile_merges_witness:
  "fst (updateProfile ''user-2'' rename_student example_store) = Inr 4
   \<and> heap (snd (updateProfile ''user-2'' rename_student example_store)) 4
     = student_user\<lparr>User.name := ''Renamed Student'', User.profilePicture := None\<rparr>
   \<and> users (snd (updateProfile ''user-2'' rename_student example_store)) = [0, 4, 2, 3]
   \<and> updateProfile ''user-99'' rename_student example_store
     = (Inl (Error ''User not found''), example_store)"
proof -
  have f: "find (\<lambda>r. User.id (heap example_store r) = ''user-2'') (users example_store)
           = Some 1"
    and n: "\<not> list_ex (\<lambda>r. User.id (heap example_store r) = ''user-99'')
                 (users example_store)"
    and r: "next_ref example_store = 4"
    and m: "spread_User (heap example_store 1) rename_student
            = student_user\<lparr>User.name := ''Renamed Student'', User.profilePicture := None\<rparr>"
    and u: "map (\<lambda>u. if User.id (heap example_store u) = ''user-2'' then 4 else u)
              (users example_store) = [0, 4, 2, 3]"
    by (simp_all add: example_defs spread_User_def spread_def rename_student_def)
  have "fst (updateProfile ''user-2'' rename_student example_store) = Inr 4
        \<and> heap (snd (updateProfile ''user-2'' rename_student example_store)) 4
          = spread_User (heap example_store 1) rename_student
        \<and> users (snd (updateProfile ''user-2'' rename_student example_store))
          = map (\<lambda>u. if User.id (heap example_store u) = ''user-2'' then 4 else u)
              (users example_store)"
    using updateProfile_merges [of example_store "''user-2''" rename_student] f
    unfolding Let_def r by blast
  moreover have "updateProfile ''user-99'' rename_student example_store
                 = (Inl (Error ''User not found''), example_store)"
    using updateProfile_merges [of example_store "''user-99''" rename_student] n by blast
  ultimately show ?thesis
    using m u by simp
qed

text \<open>
  C6, as stated, fails: a payload with the keys \<open>id\<close> and \<open>role\<close> turns the student
  \<open>user-2\<close> into an administrator with the id \<open>user-1\<close>.
\<close>

theorem updateProfile_id_role_counterexample:
  "find (\<lambda>r. User.id (heap example_store r) = ''user-2'') (users example_store) = Some 1
   \<and> User.id (heap example_store 1) = ''user-2''
   \<and> User.role (heap example_store 1) = STUDENT
   \<and> fst (updateProfile ''user-2'' promote_to_admin example_store) = Inr 4
   \<and> User.id (heap (snd (updateProfile ''user-2'' promote_to_admin example_store)) 4)
     = ''user-1''
   \<and> User.role (heap (snd (updateProfile ''user-2'' promote_to_admin example_store)) 4)
     = ADMIN"
  by (simp add: updateProfile_def Let_def example_defs spread_User_def spread_def
        promote_to_admin_def)

section \<open>Uniqueness of ids and emails\<close>

subsection \<open>Claim C4: fresh ids\<close>

text \<open>
  C4 does not hold of the code. The id of a new record is the length of its array
  plus one, which is an id in use once a record other than the last has been deleted.
  On the small database, whose ids are unique: after \<open>deleteUser('user-1')\<close>, \<open>signup\<close>
  creates a second \<open>user-4\<close>; after \<open>deleteCourse('course-1')\<close>, \<open>addCourse\<close> creates a
  second \<open>course-2\<close>; after \<open>deleteFeedback('feedback-1')\<close>, \<open>addFeedback\<close> creates a
  second \<open>feedback-3\<close>.
\<close>

theorem fresh_id_reused_after_delete:
  "distinct (map User.id (user_records example_store))
   \<and> fst (signup 2000 ''New Student'' ''new@example.com'' ''Secret@123!''
           (snd (deleteUser ''user-1'' example_store))) = Inr 4
   \<and> map User.id
       (user_records
          (snd (signup 2000 ''New Student'' ''new@example.com'' ''Secret@123!''
                  (snd (deleteUser ''user-1'' example_store)))))
     = [''user-2'', ''user-3'', ''user-4'', ''user-4'']
   \<and> \<not> distinct
         (map User.id
            (user_records
               (snd (signup 2000 ''New Student'' ''new@example.com'' ''Secret@123!''
                       (snd (deleteUser ''user-1'' example_store))))))
   \<and> distinct (map Course.id (courses example_store))
   \<and> map Course.id
       (courses (snd (addCourse 2000 new_course
                        (snd (deleteCourse ''course-1'' example_store)))))
     = [''course-2'', ''course-2'']
   \<and> distinct (map Feedback.id (feedbacks example_store))
   \<and> map Feedback.id
       (feedbacks (snd (addFeedback 2000 new_feedback
                          (snd (deleteFeedback ''feedback-1'' example_store)))))
     = [''feedback-3'', ''feedback-2'', ''feedback-3'']"
proof -
  have u0: "distinct (map User.id (user_records example_store))"
    by (simp add: user_records_def example_defs)
  have c0: "distinct (map Course.id (courses example_store))"
    by (simp add: example_defs)
  have f0: "distinct (map Feedback.id (feedbacks example_store))"
    by (simp add: example_defs)
  have u: "fst (signup 2000 ''New Student'' ''new@example.com'' ''Secret@123!''
                 (snd (deleteUser ''user-1'' example_store))) = Inr 4
     \<and> map User.id
       (user_records
          (snd (signup 2000 ''New Student'' ''new@example.com'' ''Secret@123!''
                  (snd (deleteUser ''user-1'' example_store)))))
     = [''user-2'', ''user-3'', ''user-4'', ''user-4'']"
    by (simp add: signup_def deleteUser_def user_records_def Let_def string_of_nat.simps
          example_defs)
  have c: "map Course.id
       (courses (snd (addCourse 2000 new_course
                        (snd (deleteCourse ''course-1'' example_store)))))
     = [''course-2'', ''course-2'']"
    by (simp add: addCourse_def deleteCourse_def Let_def string_of_nat.simps example_defs)
  have f: "map Feedback.id
       (feedbacks (snd (addFeedback 2000 new_feedback
                          (snd (deleteFeedback ''feedback-1'' example_store)))))
     = [''feedback-3'', ''feedback-2'', ''feedback-3'']"
    by (simp add: addFeedback_def deleteFeedback_def Let_def string_of_nat.simps
          example_defs)
  show ?thesis using u0 c0 f0 u c f by simp
qed

subsection \<open>Claim C5: unique emails\<close>

text \<open>
  C5 does not hold of the code. \<open>signup\<close> rejects an email that a user has, but
  \<open>updateProfile\<close> writes the email of its payload without that check. On the small
  database, whose emails are unique: \<open>signup\<close> with the administrator's email rejects
  with \<open>Email already exists\<close>, while \<open>updateProfile('user-2', { email })\<close> with the
  same email resolves and leaves two users with it.
\<close>

theorem updateProfile_duplicates_email:
  "distinct (map User.email (user_records example_store))
   \<and> fst (signup 2000 ''Second Admin'' ''admin@example.com'' ''Secret@123!'' example_store)
     = Inl (Error ''Email already exists'')
   \<and> fst (updateProfile ''user-2'' take_admin_email example_store) = Inr 4
   \<and> map User.email
       (user_records (snd (updateProfile ''user-2'' take_admin_email example_store)))
     = [''admin@example.com'', ''admin@example.com'', ''student1@example.com'',
        ''student2@example.com'']
   \<and> \<not> distinct
         (map User.email
            (user_records (snd (updateProfile ''user-2'' take_admin_email example_store))))"
proof -
  have 0: "distinct (map User.email (user_records example_store))"
    by (simp add: user_records_def example_defs)
  have 1: "fst (signup 2000 ''Second Admin'' ''admin@example.com'' ''Secret@123!''
                  example_store) = Inl (Error ''Email already exists'')"
    by (simp add: signup_def example_defs)
  have 2: "fst (updateProfile ''user-2'' take_admin_email example_store) = Inr 4
     \<and> map User.email
       (user_records (snd (updateProfile ''user-2'' take_admin_email example_store)))
     = [''admin@example.com'', ''admin@example.com'', ''student1@example.com'',
        ''student2@example.com'']"
    by (simp add: updateProfile_def user_records_def Let_def spread_User_def spread_def
          take_admin_email_def example_defs)
  show ?thesis using 0 1 2 by simp
qed

section \<open>Course ratings\<close>

lemma toFixed2_nearest:
  "\<bar>rat_of_int (toFixed2 x) / 100 - x\<bar> \<le> 1 / 200"
proof -
  have near: "\<bar>rat_of_int \<lfloor>y * 100 + 1 / 2\<rfloor> / 100 - y\<bar> \<le> 1 / 200" for y :: rat
  proof -
    define f where "f = rat_of_int \<lfloor>y * 100 + 1 / 2\<rfloor>"
    have "f \<le> y * 100 + 1 / 2" and "y * 100 + 1 / 2 < f + 1"
      unfolding f_def by linarith+
    then have "f / 100 - y \<le> 1 / 200" and "- (f / 100 - y) \<le> 1 / 200"
      by linarith+
    then show ?thesis
      unfolding f_def [symmetric] by (simp only: abs_le_iff)
  qed
  show ?thesis
  proof (cases "x < 0")
    case True
    have "rat_of_int (toFixed2 x) / 100 - x
          = - (rat_of_int \<lfloor>(- x) * 100 + 1 / 2\<rfloor> / 100 - (- x))"
      using True by (simp add: toFixed2_def)
    then show ?thesis
      using near [of "- x"] by (simp only: abs_minus)
  next
    case False
    then show ?thesis
      using near [of x] by (simp add: toFixed2_def)
  qed
qed

subsection \<open>The rounding of doubles\<close>

subsection \<open>The rounding of doubles\<close>

lemma pow2_pos: "0 < pow2 e"
  by (simp add: pow2_def)

lemma pow2_add: "pow2 (a + b) = pow2 a * pow2 b"
proof -
  have p: "pow2 e = 2 powi e" for e
    by (simp add: pow2_def power_int_def inverse_eq_divide power_one_over)
  show ?thesis by (simp add: p power_int_add)
qed

lemma pow2_nat: "0 \<le> e \<Longrightarrow> pow2 e = 2 ^ nat e"
  by (simp add: pow2_def)

lemma pow2_neg: "0 \<le> k \<Longrightarrow> pow2 (- k) = 1 / 2 ^ nat k"
  by (cases "k = 0") (simp_all add: pow2_def)

lemma floor_log2_bounds:
  assumes "0 < a"
  shows "pow2 (floor_log2 a) \<le> a \<and> a < pow2 (floor_log2 a + 1)"
proof (cases "1 \<le> a")
  case True
  let ?n = "\<lfloor>a\<rfloor>"
  have n: "0 < ?n" using True by simp
  have b: "2 ^ nat (bitlen ?n - 1) \<le> ?n \<and> ?n < 2 ^ nat (bitlen ?n)"
    by (rule bitlen_bounds [OF n])
  have l: "1 \<le> bitlen ?n" using n by (auto simp: bitlen_alt_def)
  have "rat_of_int (2 ^ nat (bitlen ?n - 1)) \<le> rat_of_int ?n"
    using b by (simp only: of_int_le_iff)
  also have "\<dots> \<le> a" by (rule of_int_floor_le)
  finally have lo: "(2::rat) ^ nat (bitlen ?n - 1) \<le> a" by simp
  have "?n + 1 \<le> 2 ^ nat (bitlen ?n)" using b by simp
  then have "rat_of_int (?n + 1) \<le> rat_of_int (2 ^ nat (bitlen ?n))"
    by (simp only: of_int_le_iff)
  moreover have "a < rat_of_int (?n + 1)"
    using floor_correct [of a] by simp
  ultimately have "a < rat_of_int (2 ^ nat (bitlen ?n))"
    by (rule less_le_trans [rotated])
  then have hi: "a < (2::rat) ^ nat (bitlen ?n)" by simp
  show ?thesis
    using True lo hi l by (simp add: floor_log2_def pow2_nat)
next
  case False
  let ?n = "\<lceil>1 / a\<rceil> - 1"
  let ?k = "bitlen ?n"
  have inv: "1 < 1 / a" using assms False by simp
  then have "1 < \<lceil>1 / a\<rceil>" by (simp add: less_ceiling_iff)
  then have n: "0 < ?n" by simp
  have b: "2 ^ nat (?k - 1) \<le> ?n \<and> ?n < 2 ^ nat ?k"
    by (rule bitlen_bounds [OF n])
  have l: "1 \<le> ?k" using n by (auto simp: bitlen_alt_def)
  have "\<lceil>1 / a\<rceil> \<le> 2 ^ nat ?k" using b by simp
  then have "rat_of_int \<lceil>1 / a\<rceil> \<le> rat_of_int (2 ^ nat ?k)"
    by (simp only: of_int_le_iff)
  moreover have "1 / a \<le> rat_of_int \<lceil>1 / a\<rceil>"
    by (rule le_of_int_ceiling)
  ultimately have "1 / a \<le> rat_of_int (2 ^ nat ?k)"
    by (rule order_trans [rotated])
  then have "1 / a \<le> 2 ^ nat ?k"
    by simp
  then have "1 \<le> 2 ^ nat ?k * a"
    using assms by (simp add: field_simps)
  then have lo: "1 / 2 ^ nat ?k \<le> a"
    by (simp add: field_simps)
  have "rat_of_int (2 ^ nat (?k - 1)) \<le> rat_of_int ?n"
    using b by (simp only: of_int_le_iff)
  moreover have "rat_of_int ?n < 1 / a"
    using ceiling_correct [of "1 / a"] by simp
  ultimately have "rat_of_int (2 ^ nat (?k - 1)) < 1 / a"
    by (rule le_less_trans)
  then have "2 ^ nat (?k - 1) < 1 / a" by simp
  then have "2 ^ nat (?k - 1) * a < 1"
    using assms by (simp add: field_simps)
  then have hi: "a < 1 / 2 ^ nat (?k - 1)"
    by (simp add: field_simps)
  have e1: "pow2 (- ?k) = 1 / 2 ^ nat ?k"
    using l by (simp add: pow2_neg)
  have e2: "pow2 (- ?k + 1) = 1 / 2 ^ nat (?k - 1)"
    using l pow2_neg [of "?k - 1"] by simp
  show ?thesis
    using False lo hi e1 e2 by (simp add: floor_log2_def)
qed

lemma round_half_even_nearest:
  "\<bar>rat_of_int (round_half_even x) - x\<bar> \<le> 1 / 2"
proof -
  have "rat_of_int \<lfloor>x\<rfloor> \<le> x" and "x < rat_of_int \<lfloor>x\<rfloor> + 1"
    using floor_correct [of x] by simp_all
  then show ?thesis
    by (auto simp: round_half_even_def Let_def abs_le_iff)
qed

lemma to_double_error:
  "\<bar>to_double q - q\<bar> \<le> \<bar>q\<bar> / 2 ^ 53"
proof (cases "q = 0")
  case True
  then show ?thesis by (simp add: to_double_def)
next
  case False
  let ?a = "\<bar>q\<bar>"
  let ?e = "floor_log2 ?a - 52"
  let ?m = "rat_of_int (round_half_even (?a / pow2 ?e))"
  have a: "0 < ?a" using False by simp
  have p: "0 < pow2 ?e" by (rule pow2_pos)
  have td: "to_double q = sgn q * ?m * pow2 ?e"
    using False by (simp add: to_double_def Let_def)
  have q: "q = sgn q * ?a" by (simp add: mult.commute abs_sgn)
  have "to_double q - q = sgn q * (?m * pow2 ?e - ?a)"
    by (subst (2) q) (simp add: td algebra_simps)
  then have "\<bar>to_double q - q\<bar> = \<bar>?m * pow2 ?e - ?a\<bar>"
    using False by (simp add: abs_mult abs_sgn_eq)
  also have "?m * pow2 ?e - ?a = (?m - ?a / pow2 ?e) * pow2 ?e"
    using p by (simp add: algebra_simps)
  also have "\<bar>\<dots>\<bar> = \<bar>?m - ?a / pow2 ?e\<bar> * pow2 ?e"
    using p by (simp add: abs_mult)
  also have "\<dots> \<le> 1 / 2 * pow2 ?e"
    using round_half_even_nearest [of "?a / pow2 ?e"] p
    by (intro mult_right_mono) simp_all
  also have "pow2 ?e = pow2 (floor_log2 ?a) * pow2 (- 52)"
    using pow2_add [of "floor_log2 ?a" "- 52"] by simp
  also have "pow2 (- 52) = 1 / 2 ^ 52"
    by (simp add: pow2_def)
  also have "1 / 2 * (pow2 (floor_log2 ?a) * (1 / 2 ^ 52)) = pow2 (floor_log2 ?a) / 2 ^ 53"
    by simp
  also have "\<dots> \<le> ?a / 2 ^ 53"
    using floor_log2_bounds [OF a] by (simp add: divide_right_mono)
  finally show ?thesis .
qed

lemma to_double_significand:
  assumes "q \<noteq> 0"
  shows "2 ^ 52 \<le> round_half_even (\<bar>q\<bar> / pow2 (floor_log2 \<bar>q\<bar> - 52))
         \<and> round_half_even (\<bar>q\<bar> / pow2 (floor_log2 \<bar>q\<bar> - 52)) \<le> 2 ^ 53"
proof -
  let ?a = "\<bar>q\<bar>"
  let ?l = "floor_log2 ?a"
  let ?x = "?a / pow2 (?l - 52)"
  have a: "0 < ?a" using assms by simp
  have p: "0 < pow2 ?l" by (rule pow2_pos)
  have e: "pow2 (?l - 52) = pow2 ?l / 2 ^ 52"
    using pow2_add [of ?l "- 52"] by (simp add: pow2_def)
  have u: "pow2 (?l + 1) = pow2 ?l * 2"
    using pow2_add [of ?l 1] by (simp add: pow2_def)
  define y where "y = ?a / pow2 ?l"
  have x: "?x = y * 2 ^ 52" by (simp add: e y_def)
  have "pow2 ?l \<le> ?a" and "?a < pow2 ?l * 2"
    using floor_log2_bounds [OF a] by (simp_all only: u)
  then have "1 \<le> y" and "y < 2"
    using p by (simp_all add: y_def field_simps)
  then have "2 ^ 52 \<le> y * 2 ^ 52" and "y * 2 ^ 52 < 2 ^ 53"
    by simp_all
  then have lo: "2 ^ 52 \<le> ?x" and hi: "?x < 2 ^ 53"
    by (simp_all only: x)
  have "rat_of_int (2 ^ 52) \<le> ?x" using lo by simp
  then have fl: "2 ^ 52 \<le> \<lfloor>?x\<rfloor>" by (simp only: le_floor_iff)
  have "?x < rat_of_int (2 ^ 53)" using hi by simp
  then have fu: "\<lfloor>?x\<rfloor> < 2 ^ 53" by (simp only: floor_less_iff)
  show ?thesis
    using fl fu by (auto simp: round_half_even_def Let_def)
qed

lemma parseFloat_toFixed2_error:
  assumes "\<bar>m\<bar> \<le> 10 ^ 20"
  shows "\<bar>parseFloat_toFixed2 (to_double m) - m\<bar> \<le> 1 / 200 + (3 * \<bar>m\<bar> + 1) / 2 ^ 53"
proof -
  let ?x = "to_double m"
  let ?h = "rat_of_int (toFixed2 ?x) / 100"
  have d1: "\<bar>?x - m\<bar> \<le> \<bar>m\<bar> / 2 ^ 53" by (rule to_double_error)
  have "\<bar>m\<bar> / 2 ^ 53 \<le> \<bar>m\<bar>" by (simp add: field_simps)
  then have x: "\<bar>?x\<bar> \<le> 2 * \<bar>m\<bar>" using d1 by linarith
  have "(10::rat) ^ 21 = 10 * 10 ^ 20" and "(0::rat) < 10 ^ 20" by simp_all
  then have small: "\<not> 10 ^ 21 \<le> \<bar>?x\<bar>" using x assms by linarith
  have r: "parseFloat_toFixed2 ?x = to_double ?h"
    using small by (simp add: parseFloat_toFixed2_def)
  have d2: "\<bar>?h - ?x\<bar> \<le> 1 / 200" by (rule toFixed2_nearest)
  have d3: "\<bar>to_double ?h - ?h\<bar> \<le> \<bar>?h\<bar> / 2 ^ 53" by (rule to_double_error)
  have "\<bar>?h\<bar> \<le> 2 * \<bar>m\<bar> + 1" using d2 x by linarith
  then have "\<bar>?h\<bar> / 2 ^ 53 \<le> (2 * \<bar>m\<bar> + 1) / 2 ^ 53"
    by (simp add: divide_right_mono)
  then have d3': "\<bar>to_double ?h - ?h\<bar> \<le> (2 * \<bar>m\<bar> + 1) / 2 ^ 53"
    using d3 by linarith
  have "\<bar>to_double ?h - m\<bar> \<le> \<bar>to_double ?h - ?h\<bar> + \<bar>?h - ?x\<bar> + \<bar>?x - m\<bar>"
    by linarith
  also have "\<dots> \<le> (2 * \<bar>m\<bar> + 1) / 2 ^ 53 + 1 / 200 + \<bar>m\<bar> / 2 ^ 53"
    using d1 d2 d3' by linarith
  also have "\<dots> = 1 / 200 + (3 * \<bar>m\<bar> + 1) / 2 ^ 53"
    by (simp add: field_simps)
  finally show ?thesis by (simp add: r)
qed


subsection \<open>Sums of integer ratings\<close>

text \<open>
  An integer up to \<open>2 ^ 53\<close> is a double, so the ratings of a course are added without
  rounding as long as their absolute values sum to at most \<open>2 ^ 53\<close>. Beyond that the
  loop loses ratings: \<open>2 ^ 53 + 1 + 1\<close> is \<open>2 ^ 53\<close>.
\<close>

lemma round_half_even_of_int: "round_half_even (rat_of_int k) = k"
  by (simp add: round_half_even_def)

lemma pow2_le_imp: 
  assumes "pow2 l \<le> 2 ^ 53"
  shows "l \<le> 53"
proof (rule ccontr)
  assume "\<not> l \<le> 53"
  then have l: "54 \<le> l" by simp
  then have "pow2 l = pow2 54 * pow2 (l - 54)"
    using pow2_add [of 54 "l - 54"] by simp
  moreover have "1 \<le> pow2 (l - 54)"
    using l by (simp add: pow2_def)
  moreover have "pow2 54 = 2 ^ 54" by (simp add: pow2_def)
  ultimately have "(2::rat) ^ 54 \<le> pow2 l" by simp
  then show False using assms by simp
qed

lemma to_double_of_int:
  assumes "\<bar>n\<bar> \<le> 2 ^ 53"
  shows "to_double (rat_of_int n) = rat_of_int n"
proof (cases "n = 0")
  case True
  then show ?thesis by (simp add: to_double_def)
next
  case False
  let ?q = "rat_of_int n"
  let ?a = "\<bar>?q\<bar>"
  let ?l = "floor_log2 ?a"
  let ?e = "?l - 52"
  have a: "?a = rat_of_int \<bar>n\<bar>" by simp
  have a1: "1 \<le> ?a" using False by (simp add: a del: of_int_abs)
  have "rat_of_int \<bar>n\<bar> \<le> rat_of_int (2 ^ 53)"
    using assms by (simp only: of_int_le_iff)
  then have a53: "?a \<le> 2 ^ 53" by simp
  have apos: "0 < ?a" using a1 by simp
  have b: "pow2 ?l \<le> ?a \<and> ?a < pow2 (?l + 1)"
    by (rule floor_log2_bounds [OF apos])
  have l53: "?l \<le> 53"
    using b a53 by (intro pow2_le_imp) simp
  have p: "0 < pow2 ?e" by (rule pow2_pos)
  have "\<exists>k. ?a / pow2 ?e = rat_of_int k"
  proof (cases "?l \<le> 52")
    case True
    then have "pow2 ?e = 1 / 2 ^ nat (52 - ?l)"
      using pow2_neg [of "52 - ?l"] by simp
    then have "?a / pow2 ?e = rat_of_int (\<bar>n\<bar> * 2 ^ nat (52 - ?l))"
      by (simp add: a del: of_int_abs)
    then show ?thesis by blast
  next
    case False
    then have l: "?l = 53" using l53 by simp
    have "pow2 53 = 2 ^ 53" by (simp add: pow2_def)
    then have "?a = 2 ^ 53" using b a53 l by simp
    moreover have "pow2 ?e = 2" using l by (simp add: pow2_def)
    ultimately have "?a / pow2 ?e = rat_of_int (2 ^ 52)" by simp
    then show ?thesis by blast
  qed
  then obtain k where k: "?a / pow2 ?e = rat_of_int k" by blast
  have "to_double ?q = sgn ?q * rat_of_int (round_half_even (?a / pow2 ?e)) * pow2 ?e"
    using False by (simp add: to_double_def Let_def)
  also have "\<dots> = sgn ?q * (?a / pow2 ?e) * pow2 ?e"
    by (simp only: k round_half_even_of_int)
  also have "\<dots> = sgn ?q * ?a"
    using p by simp
  also have "\<dots> = ?q"
    by (rule sgn_mult_abs)
  finally show ?thesis .
qed

lemma double_sum_exact:
  "\<bar>t\<bar> + sum_list (map abs rs) \<le> 2 ^ 53 \<Longrightarrow>
     double_sum (rat_of_int t) rs = rat_of_int (t + sum_list rs)"
proof (induction rs arbitrary: t)
  case Nil
  then show ?case by simp
next
  case (Cons r rs)
  have nn: "0 \<le> sum_list (map abs rs)"
    by (rule sum_list_nonneg) auto
  have "\<bar>t + r\<bar> \<le> 2 ^ 53"
    using Cons.prems nn by simp
  then have "plus_double (rat_of_int t) (rat_of_int r) = rat_of_int (t + r)"
    using to_double_of_int [of "t + r"] by (simp add: plus_double_def)
  moreover have "\<bar>t + r\<bar> + sum_list (map abs rs) \<le> 2 ^ 53"
    using Cons.prems by simp
  ultimately show ?case
    using Cons.IH [of "t + r"] by (simp add: add.assoc)
qed


lemma double_sum_beyond_bound: "double_sum 0 [2 ^ 53, 1, 1] = 2 ^ 53"
  by code_simp

lemma ratings_1_to_5_bound:
  assumes "list_all (\<lambda>f. 1 \<le> Feedback.rating f \<and> Feedback.rating f \<le> 5) fs"
    and "length fs \<le> 2 ^ 32"
  shows "sum_list (map (\<lambda>f. \<bar>Feedback.rating f\<bar>) fs) \<le> 2 ^ 53"
proof -
  have "sum_list (map (\<lambda>f. \<bar>Feedback.rating f\<bar>) fs) \<le> 5 * int (length fs)"
    using assms(1) by (induction fs) auto
  moreover have "5 * int (length fs) \<le> 5 * 2 ^ 32"
    using assms(2) by simp
  ultimately show ?thesis by simp
qed

subsection \<open>The map of totals and counts\<close>

lemma add_rating_other:
  "Feedback.courseId f \<noteq> k \<Longrightarrow> add_rating f m k = m k"
  by (simp add: add_rating_def Let_def split: option.splits)

lemma add_rating_same:
  "add_rating f m (Feedback.courseId f) =
     Some \<lparr>total = plus_double
                     (case m (Feedback.courseId f) of None \<Rightarrow> 0 | Some e \<Rightarrow> RatingSum.total e)
                     (of_int (Feedback.rating f)),
           count = (case m (Feedback.courseId f) of None \<Rightarrow> 0 | Some e \<Rightarrow> RatingSum.count e)
                   + 1\<rparr>"
  by (simp add: add_rating_def Let_def split: option.splits)

lemma fold_add_rating:
  "fold add_rating fs m k =
     (let rs = map Feedback.rating (filter (\<lambda>f. Feedback.courseId f = k) fs)
      in if rs = [] then m k
         else Some \<lparr>total = double_sum (case m k of None \<Rightarrow> 0 | Some e \<Rightarrow> RatingSum.total e) rs,
                    count = (case m k of None \<Rightarrow> 0 | Some e \<Rightarrow> RatingSum.count e)
                            + length rs\<rparr>)"
proof (induction fs arbitrary: m)
  case Nil
  then show ?case by simp
next
  case (Cons f fs)
  show ?case
  proof (cases "Feedback.courseId f = k")
    case True
    then show ?thesis
      using add_rating_same [of f m]
      by (simp add: Cons.IH Let_def)
  next
    case False
    then show ?thesis
      by (simp add: Cons.IH Let_def add_rating_other)
  qed
qed

lemma course_ratings_bound:
  "sum_list (map abs (course_ratings s cid))
   \<le> sum_list (map (\<lambda>f. \<bar>Feedback.rating f\<bar>) (feedbacks s))"
proof -
  have "sum_list (map abs (map Feedback.rating (filter P fs)))
        \<le> sum_list (map (\<lambda>f. \<bar>Feedback.rating f\<bar>) fs)" for P and fs :: "Feedback list"
    by (induction fs) auto
  then show ?thesis by (simp add: course_ratings_def)
qed

lemma ratingsMap_entry:
  assumes "sum_list (map (\<lambda>f. \<bar>Feedback.rating f\<bar>) (feedbacks s)) \<le> 2 ^ 53"
  shows "fold add_rating (feedbacks s) Map.empty cid =
     (if course_ratings s cid = [] then None
      else Some \<lparr>total = of_int (sum_list (course_ratings s cid)),
                 count = length (course_ratings s cid)\<rparr>)"
proof -
  have "\<bar>0\<bar> + sum_list (map abs (course_ratings s cid)) \<le> 2 ^ 53"
    using course_ratings_bound [of s cid] assms by simp
  then have "double_sum (rat_of_int 0) (course_ratings s cid)
             = rat_of_int (0 + sum_list (course_ratings s cid))"
    by (rule double_sum_exact)
  then have "double_sum 0 (course_ratings s cid) = rat_of_int (sum_list (course_ratings s cid))"
    by simp
  then show ?thesis
    by (simp add: fold_add_rating [of "feedbacks s" Map.empty cid] course_ratings_def Let_def)
qed

lemma quotient_is_mean:
  assumes "sum_list (map (\<lambda>f. \<bar>Feedback.rating f\<bar>) (feedbacks s)) \<le> 2 ^ 53"
  shows "divide_double (total_or_0 (fold add_rating (feedbacks s) Map.empty cid))
           (of_nat (count_or_1 (fold add_rating (feedbacks s) Map.empty cid)))
         = Some (to_double (mean_rating s cid))"
  by (simp add: ratingsMap_entry [OF assms] total_or_0_def count_or_1_def mean_rating_def
        divide_double_def Let_def)

lemma those_map_Some: "those (map (\<lambda>x. Some (g x)) xs) = Some (map g xs)"
  by (induction xs) simp_all

lemma getCourseRatings_eq:
  assumes "sum_list (map (\<lambda>f. \<bar>Feedback.rating f\<bar>) (feedbacks s)) \<le> 2 ^ 53"
  shows "getCourseRatings s =
     Some (sort_key (\<lambda>e. - avgRating e)
       (map (\<lambda>c. \<lparr>name = Course.name c,
                   avgRating = parseFloat_toFixed2 (to_double (mean_rating s (Course.id c)))\<rparr>)
          (courses s)))"
  by (simp add: getCourseRatings_def Let_def quotient_is_mean [OF assms] those_map_Some)

subsection \<open>Claim C2: the average rating of every course\<close>

lemma mean_rating_bound:
  assumes "sum_list (map (\<lambda>f. \<bar>Feedback.rating f\<bar>) (feedbacks s)) \<le> 2 ^ 53"
  shows "\<bar>mean_rating s cid\<bar> \<le> 10 ^ 20"
proof (cases "course_ratings s cid = []")
  case True
  then show ?thesis by (simp add: mean_rating_def)
next
  case False
  let ?rs = "course_ratings s cid"
  have len: "1 \<le> rat_of_nat (length ?rs)"
    using False by (cases ?rs) simp_all
  have "\<bar>sum_list ?rs\<bar> \<le> sum_list (map abs ?rs)"
    by (rule sum_list_abs)
  then have "\<bar>sum_list ?rs\<bar> \<le> 2 ^ 53"
    using course_ratings_bound [of s cid] assms by simp
  then have "rat_of_int \<bar>sum_list ?rs\<bar> \<le> rat_of_int (2 ^ 53)"
    by (simp only: of_int_le_iff)
  then have s: "\<bar>rat_of_int (sum_list ?rs)\<bar> \<le> 2 ^ 53" by simp
  define X where "X = \<bar>rat_of_int (sum_list ?rs)\<bar>"
  define L where "L = rat_of_nat (length ?rs)"
  have "0 \<le> X" and "1 \<le> L" using len by (simp_all add: X_def L_def)
  then have "X * 1 \<le> X * L" by (intro mult_left_mono)
  then have "X / L \<le> X" using \<open>1 \<le> L\<close> by (simp add: field_simps)
  moreover have "X \<le> 2 ^ 53" using s by (simp only: X_def)
  ultimately have "X / L \<le> 2 ^ 53" by (rule order_trans)
  moreover have "\<bar>rat_of_int (sum_list ?rs) / rat_of_nat (length ?rs)\<bar> = X / L"
    unfolding X_def L_def by (simp only: abs_divide abs_of_nat)
  ultimately have "\<bar>rat_of_int (sum_list ?rs) / rat_of_nat (length ?rs)\<bar> \<le> 2 ^ 53"
    by (simp only:)
  moreover have "(2::rat) ^ 53 \<le> 10 ^ 20" by simp
  ultimately show ?thesis
    using False by (simp add: mean_rating_def Let_def)
qed

lemma no_feedback_average:
  assumes "course_ratings s cid = []"
  shows "parseFloat_toFixed2 (to_double (mean_rating s cid)) = 0"
proof -
  have "\<lfloor>1 / 2 :: rat\<rfloor> = 0" by (rule floor_unique) simp_all
  then have "parseFloat_toFixed2 (to_double 0) = 0"
    by (simp add: parseFloat_toFixed2_def to_double_def toFixed2_def)
  then show ?thesis using assms by (simp add: mean_rating_def)
qed

lemma parseFloat_toFixed2_hundredth:
  assumes "\<bar>m\<bar> \<le> 10 ^ 20"
  shows "\<exists>n::int. parseFloat_toFixed2 (to_double m) = to_double (rat_of_int n / 100)
           \<and> \<bar>rat_of_int n / 100 - to_double m\<bar> \<le> 1 / 200
           \<and> \<bar>parseFloat_toFixed2 (to_double m) - rat_of_int n / 100\<bar>
             \<le> \<bar>rat_of_int n / 100\<bar> / 2 ^ 53"
proof -
  let ?x = "to_double m"
  have d1: "\<bar>?x - m\<bar> \<le> \<bar>m\<bar> / 2 ^ 53" by (rule to_double_error)
  have "\<bar>m\<bar> / 2 ^ 53 \<le> \<bar>m\<bar>" by (simp add: field_simps)
  then have x: "\<bar>?x\<bar> \<le> 2 * \<bar>m\<bar>" using d1 by linarith
  have "(10::rat) ^ 21 = 10 * 10 ^ 20" and "(0::rat) < 10 ^ 20" by simp_all
  then have small: "\<not> 10 ^ 21 \<le> \<bar>?x\<bar>" using x assms by linarith
  have r: "parseFloat_toFixed2 ?x = to_double (rat_of_int (toFixed2 ?x) / 100)"
    using small by (simp add: parseFloat_toFixed2_def)
  have "\<bar>rat_of_int (toFixed2 ?x) / 100 - ?x\<bar> \<le> 1 / 200"
    by (rule toFixed2_nearest)
  moreover have "\<bar>to_double (rat_of_int (toFixed2 ?x) / 100) - rat_of_int (toFixed2 ?x) / 100\<bar>
                 \<le> \<bar>rat_of_int (toFixed2 ?x) / 100\<bar> / 2 ^ 53"
    by (rule to_double_error)
  ultimately show ?thesis
    unfolding r by blast
qed


text \<open>
  C2. Take a database whose ratings are integers with absolute values that sum to at
  most \<open>2 ^ 53\<close>, as every database with ratings between 1 and 5 is. Then
  \<open>getCourseRatings\<close> returns one entry for every course, in the order of a stable sort
  by \<open>avgRating\<close>, highest first, and no average is \<open>NaN\<close> or infinite. The
  \<open>avgRating\<close> of a course is computed from the mean of the ratings of the feedbacks
  with its id, which for a course without feedback is \<open>0 / 1\<close> and gives 0. It is
  rounded to two decimal places: it is the double nearest to a number \<open>n / 100\<close> of
  hundredths that lies within half a hundredth of the double nearest to the mean, so
  it differs from \<open>n / 100\<close> and from the exact mean by no more than the rounding errors
  of doubles allow.
\<close>

theorem getCourseRatings_sorted_rounded_means:
  assumes "sum_list (map (\<lambda>f. \<bar>Feedback.rating f\<bar>) (feedbacks s)) \<le> 2 ^ 53"
  shows
    "getCourseRatings s =
       Some (sort_key (\<lambda>e. - avgRating e)
         (map (\<lambda>c. \<lparr>name = Course.name c,
                     avgRating = parseFloat_toFixed2 (to_double (mean_rating s (Course.id c)))\<rparr>)
            (courses s)))
     \<and> (\<exists>rs. getCourseRatings s = Some rs
           \<and> length rs = length (courses s)
           \<and> mset (map CourseRating.name rs) = mset (map Course.name (courses s))
           \<and> sorted_wrt (\<lambda>a b. avgRating b \<le> avgRating a) rs)
     \<and> (\<forall>cid. course_ratings s cid = [] \<longrightarrow>
            parseFloat_toFixed2 (to_double (mean_rating s cid)) = 0)
     \<and> (\<forall>cid. course_ratings s cid \<noteq> [] \<longrightarrow>
            mean_rating s cid
            = of_int (sum_list (course_ratings s cid)) / of_nat (length (course_ratings s cid)))
     \<and> (\<forall>cid. \<exists>n::int.
            parseFloat_toFixed2 (to_double (mean_rating s cid)) = to_double (of_int n / 100)
            \<and> \<bar>of_int n / 100 - to_double (mean_rating s cid)\<bar> \<le> 1 / 200
            \<and> \<bar>parseFloat_toFixed2 (to_double (mean_rating s cid)) - of_int n / 100\<bar>
              \<le> \<bar>of_int n / 100\<bar> / 2 ^ 53)
     \<and> (\<forall>cid. \<bar>to_double (mean_rating s cid) - mean_rating s cid\<bar>
              \<le> \<bar>mean_rating s cid\<bar> / 2 ^ 53
            \<and> \<bar>parseFloat_toFixed2 (to_double (mean_rating s cid)) - mean_rating s cid\<bar>
              \<le> 1 / 200 + (3 * \<bar>mean_rating s cid\<bar> + 1) / 2 ^ 53)"
proof -
  let ?entry = "\<lambda>c. \<lparr>name = Course.name c,
                   avgRating = parseFloat_toFixed2 (to_double (mean_rating s (Course.id c)))\<rparr>"
  let ?rs = "sort_key (\<lambda>e. - avgRating e) (map ?entry (courses s))"
  have eq: "getCourseRatings s = Some ?rs"
    by (rule getCourseRatings_eq [OF assms])
  have len: "length ?rs = length (courses s)"
    by simp
  have "mset ?rs = mset (map ?entry (courses s))"
    by simp
  then have "mset (map CourseRating.name ?rs)
             = mset (map CourseRating.name (map ?entry (courses s)))"
    by (simp only: mset_map)
  then have names: "mset (map CourseRating.name ?rs) = mset (map Course.name (courses s))"
    by (simp add: comp_def)
  have "sorted (map (\<lambda>e. - avgRating e) ?rs)"
    by simp
  then have srt: "sorted_wrt (\<lambda>a b. avgRating b \<le> avgRating a) ?rs"
    by (simp add: sorted_map)
  have ex: "\<exists>rs. getCourseRatings s = Some rs
           \<and> length rs = length (courses s)
           \<and> mset (map CourseRating.name rs) = mset (map Course.name (courses s))
           \<and> sorted_wrt (\<lambda>a b. avgRating b \<le> avgRating a) rs"
    using eq len names srt by blast
  have mean: "mean_rating s cid
          = of_int (sum_list (course_ratings s cid)) / of_nat (length (course_ratings s cid))"
    if "course_ratings s cid \<noteq> []" for cid
    using that by (simp add: mean_rating_def Let_def)
  have hundredth: "\<exists>n::int.
            parseFloat_toFixed2 (to_double (mean_rating s cid)) = to_double (of_int n / 100)
            \<and> \<bar>of_int n / 100 - to_double (mean_rating s cid)\<bar> \<le> 1 / 200
            \<and> \<bar>parseFloat_toFixed2 (to_double (mean_rating s cid)) - of_int n / 100\<bar>
              \<le> \<bar>of_int n / 100\<bar> / 2 ^ 53" for cid
    by (rule parseFloat_toFixed2_hundredth [OF mean_rating_bound [OF assms]])
  have err: "\<bar>to_double (mean_rating s cid) - mean_rating s cid\<bar>
              \<le> \<bar>mean_rating s cid\<bar> / 2 ^ 53
            \<and> \<bar>parseFloat_toFixed2 (to_double (mean_rating s cid)) - mean_rating s cid\<bar>
              \<le> 1 / 200 + (3 * \<bar>mean_rating s cid\<bar> + 1) / 2 ^ 53" for cid
    using to_double_error [of "mean_rating s cid"]
          parseFloat_toFixed2_error [OF mean_rating_bound [OF assms, of cid]]
    by simp
  show ?thesis
    using eq ex no_feedback_average mean hundredth err
    by (intro conjI allI impI) blast+
qed

text \<open>
  C2, on the small database, which is the example of the specification: the courses
  A (\<open>course-1\<close>) and B (\<open>course-2\<close>) with the ratings 4 and 2 for A and 5 for B give
  B with 5.00 before A with 3.00. With a third rating 5 for A and a third course
  without feedback, the mean of A is \<open>11 / 3\<close> and its average the double 3.67; the
  course without feedback has the average 0 and comes last.
\<close>

theorem getCourseRatings_sorted_rounded_means_witness:
  "sum_list (map (\<lambda>f. \<bar>Feedback.rating f\<bar>) (feedbacks example_store)) \<le> 2 ^ 53
   \<and> getCourseRatings example_store
     = Some [\<lparr>name = ''Advanced TypeScript'', avgRating = 5\<rparr>,
             \<lparr>name = ''Introduction to React'', avgRating = 3\<rparr>]
   \<and> sum_list (map (\<lambda>f. \<bar>Feedback.rating f\<bar>) (feedbacks rated_store)) \<le> 2 ^ 53
   \<and> course_ratings rated_store ''course-1'' = [4, 2, 5]
   \<and> mean_rating rated_store ''course-1'' = 11 / 3
   \<and> course_ratings rated_store ''course-3'' = []
   \<and> getCourseRatings rated_store
     = Some [\<lparr>name = ''Advanced TypeScript'', avgRating = 5\<rparr>,
             \<lparr>name = ''Introduction to React'', avgRating = to_double (367 / 100)\<rparr>,
             \<lparr>name = ''UI/UX Design Principles'', avgRating = 0\<rparr>]
   \<and> to_double (367 / 100) = 2066026329056215 / 562949953421312"
proof -
  have b1: "sum_list (map (\<lambda>f. \<bar>Feedback.rating f\<bar>) (feedbacks example_store)) \<le> 2 ^ 53"
    and b2: "sum_list (map (\<lambda>f. \<bar>Feedback.rating f\<bar>) (feedbacks rated_store)) \<le> 2 ^ 53"
    by (simp_all add: rated_store_def course_3_def feedback_4_def example_defs)
  note t1 = getCourseRatings_sorted_rounded_means [OF b1]
  note t2 = getCourseRatings_sorted_rounded_means [OF b2]
  have r0: "parseFloat_toFixed2 (to_double 0) = 0" by code_simp
  have r3: "parseFloat_toFixed2 (to_double 3) = 3" by code_simp
  have r5: "parseFloat_toFixed2 (to_double 5) = 5" by code_simp
  have r11: "parseFloat_toFixed2 (to_double (11 / 3)) = to_double (367 / 100)" by code_simp
  have v: "to_double (367 / 100) = 2066026329056215 / 562949953421312" by code_simp
  have m1: "map (\<lambda>c. (Course.name c, mean_rating example_store (Course.id c)))
              (courses example_store)
            = [(''Introduction to React'', 3), (''Advanced TypeScript'', 5)]"
    by (simp add: mean_rating_def course_ratings_def example_defs)
  have cs2: "courses rated_store = [course_1, course_2, course_3]"
    by (simp add: rated_store_def)
  have n1: "Course.name course_1 = ''Introduction to React''"
    and n2: "Course.name course_2 = ''Advanced TypeScript''"
    and n3: "Course.name course_3 = ''UI/UX Design Principles''"
    by (simp_all add: course_1_def course_2_def course_3_def)
  have k1: "mean_rating rated_store (Course.id course_1) = 11 / 3"
    and k2: "mean_rating rated_store (Course.id course_2) = 5"
    and k3: "mean_rating rated_store (Course.id course_3) = 0"
    and mm: "mean_rating rated_store ''course-1'' = 11 / 3"
    by (simp_all add: mean_rating_def course_ratings_def rated_store_def course_3_def
          feedback_4_def example_defs)
  have c1: "course_ratings rated_store ''course-1'' = [4, 2, 5]"
    and c3: "course_ratings rated_store ''course-3'' = []"
    by (simp_all add: course_ratings_def rated_store_def course_3_def feedback_4_def example_defs)
  have e1: "map (\<lambda>c. \<lparr>name = Course.name c,
                   avgRating = parseFloat_toFixed2
                                 (to_double (mean_rating example_store (Course.id c)))\<rparr>)
          (courses example_store)
        = [\<lparr>name = ''Introduction to React'', avgRating = 3\<rparr>,
           \<lparr>name = ''Advanced TypeScript'', avgRating = 5\<rparr>]"
    using m1 by (simp add: example_store_def r3 r5)
  have e2: "map (\<lambda>c. \<lparr>name = Course.name c,
                   avgRating = parseFloat_toFixed2
                                 (to_double (mean_rating rated_store (Course.id c)))\<rparr>)
          (courses rated_store)
        = [\<lparr>name = ''Introduction to React'', avgRating = to_double (367 / 100)\<rparr>,
           \<lparr>name = ''Advanced TypeScript'', avgRating = 5\<rparr>,
           \<lparr>name = ''UI/UX Design Principles'', avgRating = 0\<rparr>]"
    by (simp only: cs2 list.map k1 k2 k3 n1 n2 n3 r0 r5 r11)
  have g1: "getCourseRatings example_store
     = Some [\<lparr>name = ''Advanced TypeScript'', avgRating = 5\<rparr>,
             \<lparr>name = ''Introduction to React'', avgRating = 3\<rparr>]"
    using t1 [THEN conjunct1] by (simp add: e1)
  have g2: "getCourseRatings rated_store
     = Some [\<lparr>name = ''Advanced TypeScript'', avgRating = 5\<rparr>,
             \<lparr>name = ''Introduction to React'', avgRating = to_double (367 / 100)\<rparr>,
             \<lparr>name = ''UI/UX Design Principles'', avgRating = 0\<rparr>]"
    using t2 [THEN conjunct1] by (simp add: e2 v)
  show ?thesis
    using b1 b2 g1 g2 c1 c3 mm v by blast
qed


end
